theory Spec2Isabelle
  imports
    Main
    "HOL-Library.Multiset"
    "HOL-Library.Sublist"
    "HOL-Library.Char_ord"
    "HOL-Library.List_Lexorder"
    "HOL-Library.Product_Lexorder"
begin

section \<open>The mock engine of \<^verbatim>\<open>responses/__init__.py\<close>\<close>

text \<open>
  A shallow embedding of the module under Python 3 (\<^verbatim>\<open>six.PY2\<close> is false, so
  \<^verbatim>\<open>six.text_type\<close> and \<^verbatim>\<open>six.string_types\<close> are \<^verbatim>\<open>str\<close>).
  Python objects that the module mutates and shares (the registered responses) live in an
  explicit store; the mock's list \<^verbatim>\<open>_matches\<close> holds references into it.
  Functions of other packages (urllib, urllib3, re, requests) are parameters of the model,
  collected in the records \<open>pylib\<close> and \<open>adapter\<close>; they are taken as total, so an input on
  which one of them raises is outside the model. The \<^verbatim>\<open>HTTPHeaderDict\<close> of urllib3, the
  UTF-8 codec and the functions \<^verbatim>\<open>dumps\<close> and \<^verbatim>\<open>loads\<close> of \<^verbatim>\<open>json\<close> are defined
  in the model, for the values described with them. A leading underscore of a Python name is
  dropped (\<^verbatim>\<open>_find_match\<close> is \<open>find_match\<close>). A Python string is a \<open>string\<close>, one
  \<open>char\<close> for each character, so the characters of the model are the code points up to 255.
\<close>

subsection \<open>Values\<close>

text \<open>A compiled regular expression: its source text and its flags.\<close>

datatype re_pattern = Compiled (pattern: string) (flags: nat)

text \<open>The \<^verbatim>\<open>url\<close> of a response (and a passthru prefix): a string or a compiled pattern.\<close>

datatype url = Str string | Pat re_pattern

text \<open>A value of \<^verbatim>\<open>request.params\<close>: a single string, or the list of a key's values.\<close>

datatype param_value = Single string | Multi "string list"

text \<open>
  The request as the module reads it: \<^verbatim>\<open>method\<close>, \<^verbatim>\<open>url\<close>, \<^verbatim>\<open>body\<close>
  (\<open>None\<close> is Python's \<^verbatim>\<open>None\<close>), \<^verbatim>\<open>path_url\<close>, and the slot \<^verbatim>\<open>params\<close> it writes.
\<close>

record request =
  req_method :: string
  req_url :: string
  req_body :: "string option"
  path_url :: string
  params :: "(string \<rightharpoonup> param_value) option"

datatype exn =
    ConnectionError string "request option"
  | AssertionError string
  | ValueError string
  | TypeError string
  | IndexError
  | NotImplementedError
  | AttributeError string
  | UserError string

text \<open>The message of an exception (its first argument).\<close>

fun message :: "exn \<Rightarrow> string" where
  "message (ConnectionError m _) = m"
| "message (AssertionError m) = m"
| "message (ValueError m) = m"
| "message (TypeError m) = m"
| "message IndexError = []"
| "message NotImplementedError = []"
| "message (AttributeError m) = m"
| "message (UserError m) = m"

text \<open>
  The \<^verbatim>\<open>body\<close> of a \<^verbatim>\<open>Response\<close>: text, bytes, an exception instance, or an open
  \<^verbatim>\<open>BufferedReader\<close> (given by what it will read).
\<close>

datatype body = Text string | Bytes string | Exc exn | Reader string

text \<open>What \<^verbatim>\<open>_handle_body\<close> returns: a fresh \<^verbatim>\<open>BytesIO\<close> or the reader it was given.\<close>

datatype stream = BufferIO string | BufferedReader string

type_synonym header_list = "(string \<times> string) list"

text \<open>
  An \<^verbatim>\<open>HTTPHeaderDict\<close> of urllib3: for each header name, in the order in which the
  names were first added, the spelling first given and the values added under the name.
\<close>

type_synonym header_dict = "(string \<times> string list) list"

text \<open>The \<^verbatim>\<open>HTTPResponse\<close> of urllib3 that \<^verbatim>\<open>get_response\<close> builds, by its arguments.\<close>

record http_response =
  raw_status :: int
  raw_reason :: "string option"
  raw_body :: stream
  raw_headers :: header_dict
  original_response :: header_dict
  preload_content :: bool

text \<open>
  The headers a callback returns: the code tells a \<^verbatim>\<open>dict\<close> from a \<^verbatim>\<open>list\<close> of pairs.
\<close>

datatype cb_headers = HDict header_list | HList header_list

fun cb_header_items :: "cb_headers \<Rightarrow> header_list" where
  "cb_header_items (HDict h) = h"
| "cb_header_items (HList h) = h"

text \<open>The result of a callback: an exception, or \<^verbatim>\<open>(status, headers, body)\<close>.\<close>

datatype cb_result = CbExc exn | CbTuple int cb_headers body

text \<open>
  The three classes: \<^verbatim>\<open>BaseResponse\<close>, \<^verbatim>\<open>Response\<close> (with \<^verbatim>\<open>body\<close> and
  \<^verbatim>\<open>status\<close>) and \<^verbatim>\<open>CallbackResponse\<close> (with \<^verbatim>\<open>callback\<close>).
\<close>

datatype variant =
    Base
  | Static (body: body) (status: int)
  | Callback (callback: "request \<Rightarrow> cb_result")

record base_response =
  http_method :: string
  url :: url
  match_querystring :: bool
  match :: "(string option \<Rightarrow> bool) list"
  call_count :: nat
  content_type :: "string option"
  headers :: "header_list option"
  stream :: bool
  variant :: variant

subsection \<open>Functions of other packages\<close>

text \<open>
  \<open>urlparse\<close>, \<open>urlsplit\<close>, \<open>urlunsplit\<close>, \<open>parse_qsl\<close> and \<open>quote\<close> are
  \<^verbatim>\<open>urllib.parse\<close>'s; \<open>parse_url\<close> is \<^verbatim>\<open>parse_url(u).url\<close> of urllib3; \<open>punycode\<close> is
  \<^verbatim>\<open>d.encode("punycode").decode("ascii")\<close>; \<open>re_match\<close> is \<^verbatim>\<open>p.match(s)\<close> read as a truth value;
  \<open>str_pattern\<close> is \<^verbatim>\<open>str(p)\<close> of a compiled pattern; \<open>repr_pairs\<close> is
  \<^verbatim>\<open>repr\<close> of a list of \<^verbatim>\<open>(method, url)\<close> tuples; \<open>http_reason\<close> is
  \<^verbatim>\<open>http.client.responses.get\<close>.
\<close>

record pylib =
  urlparse :: "string \<Rightarrow> string \<times> string \<times> string \<times> string \<times> string \<times> string"
  urlsplit :: "string \<Rightarrow> string \<times> string \<times> string \<times> string \<times> string"
  urlunsplit :: "string \<times> string \<times> string \<times> string \<times> string \<Rightarrow> string"
  parse_qsl :: "string \<Rightarrow> (string \<times> string) list"
  quote :: "string \<Rightarrow> string"
  parse_url :: "string \<Rightarrow> string"
  punycode :: "string \<Rightarrow> string"
  re_match :: "re_pattern \<Rightarrow> string \<Rightarrow> bool"
  str_pattern :: "re_pattern \<Rightarrow> string"
  repr_pairs :: "(string \<times> url) list \<Rightarrow> string"
  http_reason :: "int \<Rightarrow> string option"

text \<open>The fields of \<^verbatim>\<open>urlparse\<close>'s result that the module reads.\<close>

fun scheme_netloc_path ::
  "string \<times> string \<times> string \<times> string \<times> string \<times> string \<Rightarrow> string \<times> string \<times> string" where
  "scheme_netloc_path (scheme, netloc, path, ps, qs, fragment) = (scheme, netloc, path)"

fun query :: "string \<times> string \<times> string \<times> string \<times> string \<times> string \<Rightarrow> string" where
  "query (scheme, netloc, path, ps, qs, fragment) = qs"

subsection \<open>String helpers of Python\<close>

text \<open>\<^verbatim>\<open>s.split(c)\<close> for a one-character separator.\<close>

fun split_on :: "char \<Rightarrow> string \<Rightarrow> string list" where
  "split_on c [] = [[]]"
| "split_on c (x # xs) =
     (if x = c then [] # split_on c xs
      else (case split_on c xs of
              [] \<Rightarrow> [[x]]
            | w # ws \<Rightarrow> (x # w) # ws))"

text \<open>\<^verbatim>\<open>sep.join(parts)\<close>.\<close>

fun join :: "string \<Rightarrow> string list \<Rightarrow> string" where
  "join sep [] = []"
| "join sep [p] = p"
| "join sep (p # q # ps) = p @ sep @ join sep (q # ps)"

text \<open>
  \<^verbatim>\<open>s.lower()\<close>: among the code points up to 255 the upper-case letters are
  \<^verbatim>\<open>A\<close> to \<^verbatim>\<open>Z\<close> and 192 to 222 without the sign 215.
\<close>

definition lower_char :: "char \<Rightarrow> char" where
  "lower_char c =
     (let n = (of_char c :: nat) in
      if (65 \<le> n \<and> n \<le> 90) \<or> (192 \<le> n \<and> n \<le> 222 \<and> n \<noteq> 215) then char_of (n + 32) else c)"

definition lower :: "string \<Rightarrow> string" where
  "lower s = map lower_char s"

text \<open>
  \<^verbatim>\<open>s.encode("utf-8")\<close>, for the code points up to 255: one byte below 128, two bytes
  from 128 on.
\<close>

definition utf8_encode :: "string \<Rightarrow> string" where
  "utf8_encode s =
     concat (map (\<lambda>c. let n = (of_char c :: nat) in
                       if n < 128 then [c]
                       else [char_of (192 + n div 64), char_of (128 + n mod 64)]) s)"


text \<open>\<^verbatim>\<open>s.startswith(p)\<close>.\<close>

definition startswith :: "string \<Rightarrow> string \<Rightarrow> bool" where
  "startswith s p = (take (length p) s = p)"

subsection \<open>Module-level helpers\<close>

definition has_unicode :: "string \<Rightarrow> bool" where
  "has_unicode s = list_ex (\<lambda>char. (of_char char :: nat) > 128) s"

definition clean_unicode :: "pylib \<Rightarrow> string \<Rightarrow> string" where
  "clean_unicode L url0 =
     (case urlsplit L url0 of (scheme, netloc, path, qs, fragment) \<Rightarrow>
        let url1 =
              (if has_unicode netloc then
                 let domains =
                       map (\<lambda>d. if has_unicode d then ''xn--'' @ punycode L d else d)
                         (split_on CHR ''.'' netloc)
                 in urlunsplit L (scheme, join ''.'' domains, path, qs, fragment)
               else url0);
            chars = map (\<lambda>x. if (of_char x :: nat) > 128 then quote L [x] else [x]) url1
        in concat chars)"

definition ensure_url_default_path :: "pylib \<Rightarrow> url \<Rightarrow> url" where
  "ensure_url_default_path L u =
     (case u of
        Str s \<Rightarrow>
          (case urlsplit L s of (scheme, netloc, path, qs, fragment) \<Rightarrow>
             Str (urlunsplit L (scheme, netloc, (if path = [] then ''/'' else path), qs, fragment)))
      | Pat p \<Rightarrow> Pat p)"

text \<open>
  \<^verbatim>\<open>_handle_body\<close>. An exception instance never reaches it in the module (both callers
  raise it first); \<^verbatim>\<open>BytesIO\<close> refuses one with a \<^verbatim>\<open>TypeError\<close>.
\<close>

definition handle_body :: "body \<Rightarrow> exn + stream" where
  "handle_body b =
     (case b of
        Text s \<Rightarrow> Inr (BufferIO (utf8_encode s))
      | Reader r \<Rightarrow> Inr (BufferedReader r)
      | Bytes s \<Rightarrow> Inr (BufferIO s)
      | Exc e \<Rightarrow> Inl (TypeError ''a bytes-like object is required''))"

subsection \<open>\<^verbatim>\<open>BaseResponse\<close>\<close>

text \<open>\<^verbatim>\<open>__eq__\<close>, for two instances of \<^verbatim>\<open>BaseResponse\<close>.\<close>

definition url_text :: "url \<Rightarrow> string" where
  "url_text u = (case u of Pat p \<Rightarrow> pattern p | Str s \<Rightarrow> s)"

definition eq :: "base_response \<Rightarrow> base_response \<Rightarrow> bool" where
  "eq self other =
     (if http_method self \<noteq> http_method other then False
      else
        (let self_url = url_text (url self);
             other_url = url_text (url other)
         in self_url = other_url))"

definition url_matches_strict :: "pylib \<Rightarrow> string \<Rightarrow> string \<Rightarrow> bool" where
  "url_matches_strict L u other =
     (let url_parsed = urlparse L u;
          other_parsed = urlparse L other
      in if scheme_netloc_path url_parsed \<noteq> scheme_netloc_path other_parsed then False
         else
           (let url_qsl = sort (parse_qsl L (query url_parsed));
                other_qsl = sort (parse_qsl L (query other_parsed))
            in url_qsl = other_qsl))"

text \<open>\<open>None\<close> is the default \<^verbatim>\<open>_unspecified\<close>.\<close>

definition should_match_querystring :: "pylib \<Rightarrow> url \<Rightarrow> bool option \<Rightarrow> bool" where
  "should_match_querystring L self_url match_querystring_argument =
     (case match_querystring_argument of
        Some b \<Rightarrow> b
      | None \<Rightarrow>
          (case self_url of
             Pat p \<Rightarrow> False
           | Str s \<Rightarrow> query (urlparse L s) \<noteq> []))"

text \<open>
  \<^verbatim>\<open>_url_matches\<close>. The request's URL \<open>other\<close> is a \<^verbatim>\<open>str\<close>, so the re-decoding of a
  non-text \<open>other\<close> never runs.
\<close>

definition url_matches :: "pylib \<Rightarrow> url \<Rightarrow> string \<Rightarrow> bool \<Rightarrow> bool" where
  "url_matches L u other mq =
     (case u of
        Str s0 \<Rightarrow>
          (let s = (if has_unicode s0 then clean_unicode L s0 else s0) in
           if mq then
             (let normalize_url = parse_url L s in url_matches_strict L normalize_url other)
           else
             (let url_without_qs = takeWhile (\<lambda>c. c \<noteq> CHR ''?'') s;
                  other_without_qs = takeWhile (\<lambda>c. c \<noteq> CHR ''?'') other;
                  normalized_url_without_qs = parse_url L url_without_qs
              in normalized_url_without_qs = other_without_qs))
      | Pat p \<Rightarrow> re_match L p other)"

fun body_matches :: "(string option \<Rightarrow> bool) list \<Rightarrow> string option \<Rightarrow> bool" where
  "body_matches [] request_body = True"
| "body_matches (matcher # rest) request_body =
     (if \<not> matcher request_body then False else body_matches rest request_body)"

text \<open>
  The methods of \<^verbatim>\<open>HTTPHeaderDict\<close> that the module calls. Names are compared in lower
  case. \<^verbatim>\<open>headers[key] = val\<close> replaces the entry of the name, or appends a new one;
  \<^verbatim>\<open>add\<close> (which \<^verbatim>\<open>extend\<close> calls for each pair) appends the value to the entry of
  the name, or appends a new entry; \<^verbatim>\<open>pop(key, None)\<close> drops the entry of the name;
  \<^verbatim>\<open>headers[key]\<close> joins the values of the name with a comma and a space.
\<close>

fun hd_setitem :: "header_dict \<Rightarrow> string \<Rightarrow> string \<Rightarrow> header_dict" where
  "hd_setitem [] key val = [(key, [val])]"
| "hd_setitem ((k, vals) # rest) key val =
     (if lower k = lower key then (key, [val]) # rest else (k, vals) # hd_setitem rest key val)"

fun hd_add :: "header_dict \<Rightarrow> string \<Rightarrow> string \<Rightarrow> header_dict" where
  "hd_add [] key val = [(key, [val])]"
| "hd_add ((k, vals) # rest) key val =
     (if lower k = lower key then (k, vals @ [val]) # rest else (k, vals) # hd_add rest key val)"

definition hd_extend :: "header_dict \<Rightarrow> header_list \<Rightarrow> header_dict" where
  "hd_extend d items = foldl (\<lambda>d' (key, val). hd_add d' key val) d items"

definition hd_pop :: "header_dict \<Rightarrow> string \<Rightarrow> header_dict" where
  "hd_pop d key = filter (\<lambda>(k, vals). lower k \<noteq> lower key) d"


definition get_headers :: "base_response \<Rightarrow> header_dict" where
  "get_headers self =
     (let headers0 = [];
          headers1 = (case content_type self of
                        Some ct \<Rightarrow> hd_setitem headers0 ''Content-Type'' ct
                      | None \<Rightarrow> headers0)
      in case headers self of
           None \<Rightarrow> headers1
         | Some hs \<Rightarrow> (if hs \<noteq> [] then hd_extend headers1 hs else headers1))"

definition matches :: "pylib \<Rightarrow> base_response \<Rightarrow> request \<Rightarrow> bool \<times> string" where
  "matches L self request =
     (if req_method request \<noteq> http_method self then (False, ''Method does not match'')
      else if \<not> url_matches L (url self) (req_url request) (match_querystring self)
        then (False, ''URL does not match'')
      else if \<not> body_matches (match self) (req_body request)
        then (False, ''Parameters do not match'')
      else (True, []))"

text \<open>\<^verbatim>\<open>BaseResponse.__init__\<close>, with the class attributes as the other fields.\<close>

definition BaseResponse ::
  "pylib \<Rightarrow> string \<Rightarrow> url \<Rightarrow> bool option \<Rightarrow> (string option \<Rightarrow> bool) list \<Rightarrow> base_response" where
  "BaseResponse L m u mq mt =
     (let u' = ensure_url_default_path L u in
      \<lparr> http_method = m, url = u', match_querystring = should_match_querystring L u' mq,
        match = mt, call_count = 0, content_type = None, headers = None, stream = False,
        variant = Base \<rparr>)"

subsection \<open>\<^verbatim>\<open>Response\<close> and \<^verbatim>\<open>CallbackResponse\<close>\<close>

text \<open>The default \<^verbatim>\<open>UNSET\<close> of \<^verbatim>\<open>content_type\<close>, or the value given (\<^verbatim>\<open>None\<close> included).\<close>

datatype content_type_arg = UNSET | Given "string option"

text \<open>
  The keyword arguments of \<^verbatim>\<open>Response\<close>, as \<^verbatim>\<open>add\<close>, \<^verbatim>\<open>replace\<close> and
  \<^verbatim>\<open>upsert\<close> pass them on. \<open>kw_headers = None\<close> is a call without the keyword
  \<^verbatim>\<open>headers\<close>. The type \<open>'j\<close> is that of the values given as \<^verbatim>\<open>json\<close>;
  \<open>kw_json = None\<close> is \<^verbatim>\<open>json=None\<close>, the default, and \<open>Some j\<close> a value other than
  \<^verbatim>\<open>None\<close>.
\<close>

record 'j kwargs =
  kw_json :: "'j option"
  kw_status :: int
  kw_headers :: "header_list option option"
  kw_stream :: bool
  kw_content_type :: content_type_arg
  kw_match_querystring :: "bool option"
  kw_match :: "(string option \<Rightarrow> bool) list"

definition no_kwargs :: "'j kwargs" where
  "no_kwargs =
     \<lparr> kw_json = None, kw_status = 200, kw_headers = None, kw_stream = False,
       kw_content_type = UNSET, kw_match_querystring = None, kw_match = [] \<rparr>"

text \<open>Python's truth value of a body.\<close>

fun truthy :: "body \<Rightarrow> bool" where
  "truthy (Text s) = (s \<noteq> [])"
| "truthy (Bytes s) = (s \<noteq> [])"
| "truthy (Exc e) = True"
| "truthy (Reader r) = True"

text \<open>
  \<^verbatim>\<open>Response.__init__\<close>; \<open>dumps\<close> is \<^verbatim>\<open>json.dumps\<close>. The \<^verbatim>\<open>assert\<close> is the
  \<open>AssertionError\<close>.
\<close>

definition Response ::
  "pylib \<Rightarrow> ('j \<Rightarrow> string) \<Rightarrow> string \<Rightarrow> url \<Rightarrow> body \<Rightarrow> 'j kwargs \<Rightarrow> exn + base_response" where
  "Response L dumps m u body0 kw =
     (case (case kw_json kw of
              Some j \<Rightarrow>
                if truthy body0 then Inl (AssertionError [])
                else Inr (Text (dumps j),
                          (case kw_content_type kw of
                             UNSET \<Rightarrow> Given (Some ''application/json'')
                           | Given c \<Rightarrow> Given c))
            | None \<Rightarrow> Inr (body0, kw_content_type kw)) of
        Inl e \<Rightarrow> Inl e
      | Inr (body1, ct1) \<Rightarrow>
          (let ct2 =
                 (case ct1 of
                    UNSET \<Rightarrow>
                      (case body1 of
                         Text s \<Rightarrow>
                           if has_unicode s then Some ''text/plain; charset=utf-8''
                           else Some ''text/plain''
                       | _ \<Rightarrow> Some ''text/plain'')
                  | Given c \<Rightarrow> c)
           in Inr ((BaseResponse L m u (kw_match_querystring kw) (kw_match kw))
                     \<lparr> content_type := ct2,
                       headers := (case kw_headers kw of None \<Rightarrow> None | Some h \<Rightarrow> h),
                       stream := kw_stream kw,
                       variant := Static body1 (kw_status kw) \<rparr>)))"

definition CallbackResponse ::
  "pylib \<Rightarrow> string \<Rightarrow> url \<Rightarrow> (request \<Rightarrow> cb_result) \<Rightarrow> bool \<Rightarrow> string option \<Rightarrow> bool option
     \<Rightarrow> (string option \<Rightarrow> bool) list \<Rightarrow> base_response" where
  "CallbackResponse L m u cb strm ct mq mt =
     (BaseResponse L m u mq mt) \<lparr> content_type := ct, stream := strm, variant := Callback cb \<rparr>"

text \<open>
  \<^verbatim>\<open>get_response\<close> of the three classes.
\<close>

definition get_response :: "pylib \<Rightarrow> base_response \<Rightarrow> request \<Rightarrow> exn + http_response" where
  "get_response L self request =
     (case variant self of
        Base \<Rightarrow> Inl NotImplementedError
      | Static b st \<Rightarrow>
          (case b of
             Exc e \<Rightarrow> Inl e
           | _ \<Rightarrow>
               (let hs = get_headers self in
                case handle_body b of
                  Inl e \<Rightarrow> Inl e
                | Inr bd \<Rightarrow>
                    Inr \<lparr> raw_status = st, raw_reason = http_reason L st, raw_body = bd,
                          raw_headers = hs, original_response = hs, preload_content = False \<rparr>))
      | Callback cb \<Rightarrow>
          (let hs = get_headers self in
           case cb request of
             CbExc e \<Rightarrow> Inl e
           | CbTuple st r_headers b \<Rightarrow>
               (case b of
                  Exc e \<Rightarrow> Inl e
                | _ \<Rightarrow>
                    (let has_content_type =
                           (case r_headers of
                              HDict d \<Rightarrow> list_ex (\<lambda>h. fst h = ''Content-Type'') d
                            | HList l \<Rightarrow> list_ex (\<lambda>h. lower (fst h) = ''content-type'') l);
                         hs1 = (if has_content_type then hd_pop hs ''Content-Type'' else hs)
                     in case handle_body b of
                          Inl e \<Rightarrow> Inl e
                        | Inr bd \<Rightarrow>
                            (let hs2 = hd_extend hs1 (cb_header_items r_headers) in
                             Inr \<lparr> raw_status = st, raw_reason = http_reason L st,
                                   raw_body = bd, raw_headers = hs2,
                                   original_response = hs2, preload_content = False \<rparr>)))))"

subsection \<open>\<^verbatim>\<open>RequestsMock\<close>: the state\<close>

text \<open>
  A value that the module logs, returns or hands to \<^verbatim>\<open>response_callback\<close>: an exception
  instance or a response of the transport (of type \<open>'r\<close>).
\<close>

datatype 'r pyval = ExcVal exn | RespVal 'r

type_synonym ref = nat

text \<open>
  The mock, together with the store of the responses: \<open>heap\<close> maps a reference to the
  object, \<open>next_ref\<close> is the next free reference. \<open>mock_calls\<close> is the list inside
  \<^verbatim>\<open>_calls\<close> (a \<^verbatim>\<open>CallList\<close>), \<open>mock_matches\<close> is \<^verbatim>\<open>_matches\<close>. \<open>patcher\<close> is
  \<open>None\<close> as long as the object has no attribute \<^verbatim>\<open>_patcher\<close>, and then tells whether
  the patcher is started.
\<close>

record 'r requests_mock =
  mock_calls :: "(request \<times> 'r pyval) list"
  mock_matches :: "ref list"
  assert_all_requests_are_fired :: bool
  response_callback :: "('r pyval \<Rightarrow> 'r pyval) option"
  passthru_prefixes :: "url list"
  patcher :: "bool option"
  heap :: "ref \<Rightarrow> base_response"
  next_ref :: ref

text \<open>
  What \<^verbatim>\<open>_on_request\<close> uses of the adapter: \<^verbatim>\<open>adapter.build_response\<close>, and the real
  \<^verbatim>\<open>HTTPAdapter.send\<close> (\<^verbatim>\<open>_real_send\<close>), which returns a response or raises.
\<close>

record 'r adapter =
  build_response :: "request \<Rightarrow> http_response \<Rightarrow> 'r"
  send :: "request \<Rightarrow> exn + 'r"

text \<open>Creating an object: the store gives it the next free reference.\<close>

definition alloc :: "'r requests_mock \<Rightarrow> base_response \<Rightarrow> ref \<times> 'r requests_mock" where
  "alloc self obj =
     (next_ref self,
      self \<lparr> heap := (heap self)(next_ref self := obj), next_ref := Suc (next_ref self) \<rparr>)"

text \<open>\<^verbatim>\<open>CallList.add\<close> and \<^verbatim>\<open>CallList.reset\<close>, on the mock's \<^verbatim>\<open>_calls\<close>.\<close>

definition calls_add :: "'r requests_mock \<Rightarrow> request \<Rightarrow> 'r pyval \<Rightarrow> 'r requests_mock" where
  "calls_add self request response =
     self \<lparr> mock_calls := mock_calls self @ [(request, response)] \<rparr>"

definition calls_reset :: "'r requests_mock \<Rightarrow> 'r requests_mock" where
  "calls_reset self = self \<lparr> mock_calls := [] \<rparr>"

definition reset :: "'r requests_mock \<Rightarrow> 'r requests_mock" where
  "reset self = calls_reset (self \<lparr> mock_matches := [] \<rparr>)"

text \<open>\<^verbatim>\<open>match.call_count += 1\<close>, on the object behind the reference.\<close>

definition incr_call_count :: "'r requests_mock \<Rightarrow> ref \<Rightarrow> 'r requests_mock" where
  "incr_call_count self m =
     self \<lparr> heap := (heap self)(m := (heap self m) \<lparr> call_count := call_count (heap self m) + 1 \<rparr>) \<rparr>"

text \<open>
  \<^verbatim>\<open>RequestsMock.__init__\<close>, in a store \<open>h\<close> whose next free reference is \<open>n\<close>.
\<close>

definition RequestsMock ::
  "(ref \<Rightarrow> base_response) \<Rightarrow> ref \<Rightarrow> bool \<Rightarrow> ('r pyval \<Rightarrow> 'r pyval) option \<Rightarrow> url list
     \<Rightarrow> 'r requests_mock" where
  "RequestsMock h n assert_fired cb passthru =
     reset \<lparr> mock_calls = [], mock_matches = [], assert_all_requests_are_fired = assert_fired,
             response_callback = cb, passthru_prefixes = passthru, patcher = None,
             heap = h, next_ref = n \<rparr>"

subsection \<open>\<^verbatim>\<open>RequestsMock\<close>: the registry\<close>

text \<open>
  The first argument of \<^verbatim>\<open>add\<close>, \<^verbatim>\<open>replace\<close> and \<^verbatim>\<open>upsert\<close>: an object that
  implements \<^verbatim>\<open>BaseResponse\<close>, or the method, with the URL, the body and the keywords
  of a \<^verbatim>\<open>Response\<close> to create.
\<close>

datatype 'j target = Obj ref | New string url body "'j kwargs"

text \<open>\<^verbatim>\<open>kwargs.setdefault("headers", adding_headers)\<close>.\<close>

definition setdefault_headers :: "'j kwargs \<Rightarrow> header_list option \<Rightarrow> 'j kwargs" where
  "setdefault_headers kw adding_headers =
     (case kw_headers kw of
        None \<Rightarrow> kw \<lparr> kw_headers := Some adding_headers \<rparr>
      | Some h \<Rightarrow> kw)"

definition add ::
  "pylib \<Rightarrow> ('j \<Rightarrow> string) \<Rightarrow> 'r requests_mock \<Rightarrow> 'j target \<Rightarrow> header_list option
     \<Rightarrow> (exn + unit) \<times> 'r requests_mock" where
  "add L dumps self t adding_headers =
     (case t of
        Obj r \<Rightarrow> (Inr (), self \<lparr> mock_matches := mock_matches self @ [r] \<rparr>)
      | New m u b kw0 \<Rightarrow>
          (let kw = (if adding_headers \<noteq> None then setdefault_headers kw0 adding_headers
                     else kw0)
           in case Response L dumps m u b kw of
                Inl e \<Rightarrow> (Inl e, self)
              | Inr response \<Rightarrow>
                  (case alloc self response of (r, self1) \<Rightarrow>
                     (Inr (), self1 \<lparr> mock_matches := mock_matches self1 @ [r] \<rparr>))))"

definition add_passthru :: "pylib \<Rightarrow> 'r requests_mock \<Rightarrow> url \<Rightarrow> 'r requests_mock" where
  "add_passthru L self prefix0 =
     (let prefix =
            (case prefix0 of
               Str s \<Rightarrow> if has_unicode s then Str (clean_unicode L s) else Str s
             | Pat p \<Rightarrow> Pat p)
      in self \<lparr> passthru_prefixes := passthru_prefixes self @ [prefix] \<rparr>)"

definition add_callback ::
  "pylib \<Rightarrow> 'r requests_mock \<Rightarrow> string \<Rightarrow> url \<Rightarrow> (request \<Rightarrow> cb_result) \<Rightarrow> bool \<Rightarrow> string option
     \<Rightarrow> 'r requests_mock" where
  "add_callback L self m u cb mq ct =
     (case alloc self (CallbackResponse L m u cb False ct (Some mq) []) of (r, self1) \<Rightarrow>
        self1 \<lparr> mock_matches := mock_matches self1 @ [r] \<rparr>)"

text \<open>
  \<^verbatim>\<open>response in self._matches\<close>, \<^verbatim>\<open>self._matches.remove(response)\<close> and
  \<^verbatim>\<open>self._matches.index(response)\<close>: Python compares with \<^verbatim>\<open>==\<close>, that is with
  \<open>eq\<close>, from the front of the list. \<^verbatim>\<open>remove\<close> and \<^verbatim>\<open>index\<close> raise
  \<^verbatim>\<open>ValueError\<close> when nothing is equal.
\<close>

definition contains :: "(ref \<Rightarrow> base_response) \<Rightarrow> base_response \<Rightarrow> ref list \<Rightarrow> bool" where
  "contains h x xs = list_ex (\<lambda>m. eq (h m) x) xs"

fun list_remove :: "(ref \<Rightarrow> base_response) \<Rightarrow> base_response \<Rightarrow> ref list \<Rightarrow> exn + ref list" where
  "list_remove h x [] = Inl (ValueError ''list.remove(x): x not in list'')"
| "list_remove h x (m # ms) =
     (if eq (h m) x then Inr ms
      else (case list_remove h x ms of Inl e \<Rightarrow> Inl e | Inr ms' \<Rightarrow> Inr (m # ms')))"

fun list_index :: "(ref \<Rightarrow> base_response) \<Rightarrow> base_response \<Rightarrow> ref list \<Rightarrow> exn + nat" where
  "list_index h x [] = Inl (ValueError ''x is not in list'')"
| "list_index h x (m # ms) =
     (if eq (h m) x then Inr 0
      else (case list_index h x ms of Inl e \<Rightarrow> Inl e | Inr i \<Rightarrow> Inr (Suc i)))"

lemma list_remove_length:
  "list_remove h x ms = Inr ms' \<Longrightarrow> length ms' < length ms"
  by (induction ms arbitrary: ms') (auto split: if_splits sum.splits)

text \<open>
  The loop of \<^verbatim>\<open>remove\<close>: \<^verbatim>\<open>while response in self._matches: self._matches.remove(response)\<close>.
  It returns the list it has reached, and the exception if one was raised.
\<close>

function remove_loop ::
  "(ref \<Rightarrow> base_response) \<Rightarrow> base_response \<Rightarrow> ref list \<Rightarrow> exn option \<times> ref list" where
  "remove_loop h response ms =
     (if contains h response ms then
        (case list_remove h response ms of
           Inl e \<Rightarrow> (Some e, ms)
         | Inr ms' \<Rightarrow> remove_loop h response ms')
      else (None, ms))"
  by pat_completeness auto
termination
  by (relation "measure (\<lambda>(h, response, ms). length ms)") (auto dest: list_remove_length)

declare remove_loop.simps [simp del]

text \<open>The first argument of \<^verbatim>\<open>remove\<close>: a response object, or a method.\<close>

datatype method_or_response = Response_obj ref | Method string

text \<open>The \<^verbatim>\<open>response\<close> that \<^verbatim>\<open>remove\<close> looks for: the object given, or a new \<^verbatim>\<open>BaseResponse\<close>.\<close>

definition remove_key :: "pylib \<Rightarrow> 'r requests_mock \<Rightarrow> method_or_response \<Rightarrow> url \<Rightarrow> base_response" where
  "remove_key L self method_or_response u =
     (case method_or_response of
        Response_obj r \<Rightarrow> heap self r
      | Method m \<Rightarrow> BaseResponse L m u None [])"

definition remove ::
  "pylib \<Rightarrow> 'r requests_mock \<Rightarrow> method_or_response \<Rightarrow> url \<Rightarrow> (exn + unit) \<times> 'r requests_mock" where
  "remove L self method_or_response u =
     (let response = remove_key L self method_or_response u
      in case remove_loop (heap self) response (mock_matches self) of
           (Some e, ms) \<Rightarrow> (Inl e, self \<lparr> mock_matches := ms \<rparr>)
         | (None, ms) \<Rightarrow> (Inr (), self \<lparr> mock_matches := ms \<rparr>))"

text \<open>\<^verbatim>\<open>str(url)\<close>, as the messages print a URL.\<close>

definition format_url :: "pylib \<Rightarrow> url \<Rightarrow> string" where
  "format_url L u = (case u of Str s \<Rightarrow> s | Pat p \<Rightarrow> str_pattern L p)"

text \<open>
  The first statement of \<^verbatim>\<open>replace\<close>: the \<^verbatim>\<open>url\<close> for the message, the
  \<^verbatim>\<open>response\<close> (the object given, or a new \<^verbatim>\<open>Response\<close> in the store), and the mock in
  the store after it.
\<close>

definition new_response ::
  "pylib \<Rightarrow> ('j \<Rightarrow> string) \<Rightarrow> 'r requests_mock \<Rightarrow> 'j target \<Rightarrow> exn + url \<times> ref \<times> 'r requests_mock" where
  "new_response L dumps self t =
     (case t of
        Obj r \<Rightarrow> Inr (url (heap self r), r, self)
      | New m u b kw \<Rightarrow>
          (case Response L dumps m u b kw of
             Inl e \<Rightarrow> Inl e
           | Inr response \<Rightarrow>
               (case alloc self response of (r, self1) \<Rightarrow> Inr (u, r, self1))))"

definition replace ::
  "pylib \<Rightarrow> ('j \<Rightarrow> string) \<Rightarrow> 'r requests_mock \<Rightarrow> 'j target \<Rightarrow> (exn + unit) \<times> 'r requests_mock" where
  "replace L dumps self t =
     (case new_response L dumps self t of
        Inl e \<Rightarrow> (Inl e, self)
      | Inr (u, response, self1) \<Rightarrow>
          (case list_index (heap self1) (heap self1 response) (mock_matches self1) of
             Inl e \<Rightarrow>
               (Inl (ValueError (''Response is not registered for URL '' @ format_url L u)), self1)
           | Inr index \<Rightarrow>
               (Inr (), self1 \<lparr> mock_matches := (mock_matches self1)[index := response] \<rparr>)))"

text \<open>
  \<^verbatim>\<open>upsert\<close>: \<^verbatim>\<open>except ValueError\<close> takes the \<open>ValueError\<close> of \<^verbatim>\<open>replace\<close> and no
  other exception. \<open>adding_headers\<close> is the one further positional argument that
  \<^verbatim>\<open>add\<close> reads and \<^verbatim>\<open>replace\<close> ignores.
\<close>

definition upsert ::
  "pylib \<Rightarrow> ('j \<Rightarrow> string) \<Rightarrow> 'r requests_mock \<Rightarrow> 'j target \<Rightarrow> header_list option
     \<Rightarrow> (exn + unit) \<times> 'r requests_mock" where
  "upsert L dumps self t adding_headers =
     (case replace L dumps self t of
        (Inl (ValueError msg), self1) \<Rightarrow> add L dumps self1 t adding_headers
      | (res, self1) \<Rightarrow> (res, self1))"

definition registered :: "'r requests_mock \<Rightarrow> ref list" where
  "registered self = mock_matches self"

definition calls :: "'r requests_mock \<Rightarrow> (request \<times> 'r pyval) list" where
  "calls self = mock_calls self"

subsection \<open>\<^verbatim>\<open>RequestsMock\<close>: dispatch\<close>

text \<open>\<^verbatim>\<open>self._matches.pop(i)\<close>; \<^verbatim>\<open>IndexError\<close> out of range.\<close>

definition pop :: "'a list \<Rightarrow> nat \<Rightarrow> exn + 'a \<times> 'a list" where
  "pop xs i = (if i < length xs then Inr (xs ! i, take i xs @ drop (Suc i) xs) else Inl IndexError)"

text \<open>
  The loop of \<^verbatim>\<open>_find_match\<close> over \<^verbatim>\<open>enumerate(self._matches)\<close>, with its variables
  \<open>found\<close> (the index with the match, once one is found) and \<open>match_failed_reasons\<close>. The
  first component of the result tells whether the loop was left by the \<^verbatim>\<open>return\<close> inside it.
\<close>

fun find_match_loop ::
  "pylib \<Rightarrow> (ref \<Rightarrow> base_response) \<Rightarrow> request \<Rightarrow> (nat \<times> ref) list \<Rightarrow> (nat \<times> ref) option
     \<Rightarrow> string list \<Rightarrow> bool \<times> (nat \<times> ref) option \<times> string list" where
  "find_match_loop L h request [] found match_failed_reasons =
     (False, found, match_failed_reasons)"
| "find_match_loop L h request ((i, m) # rest) found match_failed_reasons =
     (case matches L (h m) request of (match_result, reason) \<Rightarrow>
        if match_result then
          (case found of
             None \<Rightarrow> find_match_loop L h request rest (Some (i, m)) match_failed_reasons
           | Some f \<Rightarrow> (True, found, match_failed_reasons))
        else find_match_loop L h request rest found (match_failed_reasons @ [reason]))"

definition find_match ::
  "pylib \<Rightarrow> 'r requests_mock \<Rightarrow> request
     \<Rightarrow> (exn + ref option \<times> string list) \<times> 'r requests_mock" where
  "find_match L self request =
     (case find_match_loop L (heap self) request (enumerate 0 (mock_matches self)) None [] of
        (True, Some (found, found_match), match_failed_reasons) \<Rightarrow>
          (case pop (mock_matches self) found of
             Inl e \<Rightarrow> (Inl e, self)
           | Inr (x, ms) \<Rightarrow> (Inr (Some x, match_failed_reasons), self \<lparr> mock_matches := ms \<rparr>))
      | (returned, found, match_failed_reasons) \<Rightarrow>
          (Inr (map_option snd found, match_failed_reasons), self))"

text \<open>
  \<^verbatim>\<open>itertools.groupby(xs, key)\<close>, with each group as a list: a group is a maximal run of
  consecutive elements with the same key.
\<close>

function groupby :: "('a \<Rightarrow> 'k) \<Rightarrow> 'a list \<Rightarrow> ('k \<times> 'a list) list" where
  "groupby key [] = []"
| "groupby key (x # xs) =
     (key x, x # takeWhile (\<lambda>y. key y = key x) xs)
       # groupby key (dropWhile (\<lambda>y. key y = key x) xs)"
  by pat_completeness auto
termination
  by (relation "measure (\<lambda>(key, xs). length xs)") (auto simp: length_dropWhile_le less_Suc_eq_le)

definition parse_request_params :: "pylib \<Rightarrow> string \<Rightarrow> (string \<rightharpoonup> param_value)" where
  "parse_request_params L u =
     foldl
       (\<lambda>ps (key, val).
          (let values0 = map snd val;
               values1 = (if length values0 = 1 then Single (values0 ! 0) else Multi values0)
           in ps(key \<mapsto> values1)))
       Map.empty
       (groupby fst (parse_qsl L (query (urlparse L u))))"

text \<open>\<^verbatim>\<open>request.params = self._parse_request_params(request.path_url)\<close>.\<close>

definition with_params :: "pylib \<Rightarrow> request \<Rightarrow> request" where
  "with_params L request =
     request \<lparr> params := Some (parse_request_params L (path_url request)) \<rparr>"

text \<open>The test of \<^verbatim>\<open>_on_request\<close> on \<^verbatim>\<open>self.passthru_prefixes\<close>.\<close>

definition allowed_passthru :: "pylib \<Rightarrow> url list \<Rightarrow> string \<Rightarrow> bool" where
  "allowed_passthru L ps request_url =
     list_ex (\<lambda>p. case p of Pat pt \<Rightarrow> re_match L pt request_url
                           | Str s \<Rightarrow> startswith request_url s) ps"

text \<open>
  The loop of \<^verbatim>\<open>_on_request\<close> that extends \<^verbatim>\<open>error_msg\<close> over
  \<^verbatim>\<open>enumerate(self._matches)\<close>; \<^verbatim>\<open>match_failed_reasons[i]\<close> raises \<^verbatim>\<open>IndexError\<close>
  out of range.
\<close>

fun available_matches ::
  "pylib \<Rightarrow> (ref \<Rightarrow> base_response) \<Rightarrow> string list \<Rightarrow> (nat \<times> ref) list \<Rightarrow> string \<Rightarrow> exn + string" where
  "available_matches L h match_failed_reasons [] error_msg = Inr error_msg"
| "available_matches L h match_failed_reasons ((i, m) # rest) error_msg =
     (if i < length match_failed_reasons then
        available_matches L h match_failed_reasons rest
          (error_msg @ ''- '' @ http_method (h m) @ '' '' @ format_url L (url (h m)) @ '' ''
             @ match_failed_reasons ! i @ [CHR 0x0A])
      else Inl IndexError)"

definition error_msg_head :: "request \<Rightarrow> string" where
  "error_msg_head request =
     ''Connection refused by Responses - the call doesn'' @ [CHR 0x27] @ ''t ''
       @ ''match any registered mock.'' @ [CHR 0x0A, CHR 0x0A]
       @ ''Request: '' @ [CHR 0x0A]
       @ ''- '' @ req_method request @ '' '' @ req_url request @ [CHR 0x0A, CHR 0x0A]
       @ ''Available matches:'' @ [CHR 0x0A]"

text \<open>\<^verbatim>\<open>raise v\<close>: Python refuses a value that is no exception with a \<^verbatim>\<open>TypeError\<close>.\<close>

fun raise_value :: "'r pyval \<Rightarrow> exn" where
  "raise_value (ExcVal e) = e"
| "raise_value (RespVal r) = TypeError ''exceptions must derive from BaseException''"

definition apply_callback :: "('r pyval \<Rightarrow> 'r pyval) option \<Rightarrow> 'r pyval \<Rightarrow> 'r pyval" where
  "apply_callback resp_callback response =
     (case resp_callback of Some f \<Rightarrow> f response | None \<Rightarrow> response)"

text \<open>
  The second half of \<^verbatim>\<open>_on_request\<close>, from \<^verbatim>\<open>try:\<close> on: the answer of the mock once
  \<open>m\<close> is the match. Reading \<^verbatim>\<open>response.content\<close> changes nothing that the model holds. In
  the \<^verbatim>\<open>except\<close> branch the result of \<^verbatim>\<open>resp_callback\<close> is dropped, and the bare
  \<^verbatim>\<open>raise\<close> raises the exception that was caught.
\<close>

definition respond ::
  "pylib \<Rightarrow> 'r adapter \<Rightarrow> 'r requests_mock \<Rightarrow> ref \<Rightarrow> request
     \<Rightarrow> (exn + 'r pyval) \<times> 'r requests_mock \<times> request" where
  "respond L adapter self m request =
     (let resp_callback = response_callback self in
      case get_response L (heap self m) request of
        Inl e \<Rightarrow>
          (let self1 = incr_call_count self m;
               self2 = calls_add self1 request (ExcVal e)
           in (Inl e, self2, request))
      | Inr raw \<Rightarrow>
          (let response0 = RespVal (build_response adapter request raw);
               response = apply_callback resp_callback response0;
               self1 = incr_call_count self m;
               self2 = calls_add self1 request response
           in (Inr response, self2, request)))"

text \<open>
  \<^verbatim>\<open>_on_request\<close>. The result is what the call raises (\<open>Inl\<close>) or returns (\<open>Inr\<close>), the mock
  after the call, and the request after the call (its \<^verbatim>\<open>params\<close> are written).
\<close>

definition on_request ::
  "pylib \<Rightarrow> 'r adapter \<Rightarrow> 'r requests_mock \<Rightarrow> request
     \<Rightarrow> (exn + 'r pyval) \<times> 'r requests_mock \<times> request" where
  "on_request L adapter self request0 =
     (case find_match L self request0 of
        (Inl e, self1) \<Rightarrow> (Inl e, self1, request0)
      | (Inr (mtch, match_failed_reasons), self1) \<Rightarrow>
          (let resp_callback = response_callback self1;
               request = with_params L request0
           in case mtch of
                None \<Rightarrow>
                  if allowed_passthru L (passthru_prefixes self1) (req_url request) then
                    (map_sum id RespVal (send adapter request), self1, request)
                  else
                    (case available_matches L (heap self1) match_failed_reasons
                            (enumerate 0 (mock_matches self1)) (error_msg_head request) of
                       Inl e \<Rightarrow> (Inl e, self1, request)
                     | Inr error_msg \<Rightarrow>
                         (let response = ConnectionError error_msg (Some request);
                              self2 = calls_add self1 request (ExcVal response);
                              response' = apply_callback resp_callback (ExcVal response)
                          in (Inl (raise_value response'), self2, request)))
              | Some m \<Rightarrow> respond L adapter self1 m request))"

subsection \<open>\<^verbatim>\<open>RequestsMock\<close>: the scope\<close>

definition start :: "'r requests_mock \<Rightarrow> 'r requests_mock" where
  "start self = self \<lparr> patcher := Some True \<rparr>"

text \<open>
  \<^verbatim>\<open>stop\<close>. \<^verbatim>\<open>self._patcher\<close> raises \<^verbatim>\<open>AttributeError\<close> on a mock that was never
  started. Stopping a patcher that is stopped already does nothing (as from Python 3.8 on).
\<close>

definition stop :: "pylib \<Rightarrow> 'r requests_mock \<Rightarrow> bool \<Rightarrow> (exn + unit) \<times> 'r requests_mock" where
  "stop L self0 allow_assert =
     (case patcher self0 of
        None \<Rightarrow>
          (Inl (AttributeError ''RequestsMock object has no attribute _patcher''), self0)
      | Some started \<Rightarrow>
          (let self = self0 \<lparr> patcher := Some False \<rparr> in
           if \<not> assert_all_requests_are_fired self then (Inr (), self)
           else if \<not> allow_assert then (Inr (), self)
           else
             (let not_called = filter (\<lambda>m. call_count (heap self m) = 0) (mock_matches self) in
              if not_called \<noteq> [] then
                (Inl (AssertionError
                        (''Not all requests have been executed ''
                           @ repr_pairs L
                               (map (\<lambda>m. (http_method (heap self m), url (heap self m)))
                                  not_called))),
                 self)
              else (Inr (), self))))"

definition enter :: "'r requests_mock \<Rightarrow> 'r requests_mock" where
  "enter self = start self"

text \<open>
  \<^verbatim>\<open>__exit__(type, value, traceback)\<close>: \<open>exc\<close> is the exception that left the body of the
  \<^verbatim>\<open>with\<close> statement, \<open>None\<close> when the body ended normally (\<^verbatim>\<open>type is None\<close>). The
  result is the exception that \<^verbatim>\<open>__exit__\<close> raises, or the value it returns.
\<close>

definition exit :: "pylib \<Rightarrow> 'r requests_mock \<Rightarrow> exn option \<Rightarrow> (exn + bool) \<times> 'r requests_mock" where
  "exit L self exc =
     (let success = (exc = None) in
      case stop L self success of
        (Inl e, self1) \<Rightarrow> (Inl e, self1)
      | (Inr u, self1) \<Rightarrow> (Inr success, reset self1))"

section \<open>A library instance for plain URLs\<close>

text \<open>
  The theorems below hold for every \<open>pylib\<close>. The examples evaluate the model on the
  instance \<open>plain_lib\<close>, which follows CPython's \<^verbatim>\<open>urllib.parse\<close> on URLs of printable
  ASCII characters in normal form (a lower-case scheme and host, an explicit path, no dot
  segments): there \<^verbatim>\<open>parse_url(u).url\<close> is \<open>u\<close> itself, and no punycode is needed.
  Its patterns are literal texts, matched at the start of the string.
\<close>

definition scheme_chars :: string where
  "scheme_chars = ''abcdefghijklmnopqrstuvwxyzABCDEFGHIJKLMNOPQRSTUVWXYZ0123456789+-.''"

text \<open>\<^verbatim>\<open>s.partition(c)\<close> without the separator: the text before the first \<open>c\<close>, and after it.\<close>

definition cut :: "char \<Rightarrow> string \<Rightarrow> string \<times> string" where
  "cut c s = (takeWhile (\<lambda>x. x \<noteq> c) s, drop 1 (dropWhile (\<lambda>x. x \<noteq> c) s))"

definition plain_urlsplit :: "string \<Rightarrow> string \<times> string \<times> string \<times> string \<times> string" where
  "plain_urlsplit u0 =
     (let s = takeWhile (\<lambda>c. c \<noteq> CHR '':'') u0;
          has_scheme = (s \<noteq> [] \<and> length s < length u0 \<and> list_all (\<lambda>c. c \<in> set scheme_chars) s);
          scheme = (if has_scheme then lower s else []);
          u1 = (if has_scheme then drop (Suc (length s)) u0 else u0);
          has_netloc = (take 2 u1 = ''//'');
          netloc = (if has_netloc then takeWhile (\<lambda>c. c \<notin> set ''/?#'') (drop 2 u1) else []);
          u2 = (if has_netloc then dropWhile (\<lambda>c. c \<notin> set ''/?#'') (drop 2 u1) else u1);
          u3 = fst (cut CHR ''#'' u2);
          fragment = snd (cut CHR ''#'' u2);
          path = fst (cut CHR ''?'' u3);
          qs = snd (cut CHR ''?'' u3)
      in (scheme, netloc, path, qs, fragment))"

text \<open>\<^verbatim>\<open>urlparse\<close> also splits the parameters off the last segment of the path.\<close>

definition plain_urlparse ::
  "string \<Rightarrow> string \<times> string \<times> string \<times> string \<times> string \<times> string" where
  "plain_urlparse u =
     (case plain_urlsplit u of (scheme, netloc, path0, qs, fragment) \<Rightarrow>
        let last_segment = rev (takeWhile (\<lambda>c. c \<noteq> CHR ''/'') (rev path0));
            before = take (length path0 - length last_segment) path0;
            path = before @ fst (cut CHR '';'' last_segment);
            ps = snd (cut CHR '';'' last_segment)
        in (scheme, netloc, path, ps, qs, fragment))"

definition plain_urlunsplit :: "string \<times> string \<times> string \<times> string \<times> string \<Rightarrow> string" where
  "plain_urlunsplit parts =
     (case parts of (scheme, netloc, path, qs, fragment) \<Rightarrow>
        let u1 = (if netloc \<noteq> []
                    \<or> (scheme \<in> set [''http'', ''https'', ''ftp'', ''file'', ''ws'', ''wss'']
                        \<and> take 2 path \<noteq> ''//'')
                  then ''//'' @ netloc @ (if path \<noteq> [] \<and> take 1 path \<noteq> ''/'' then ''/'' @ path else path)
                  else path);
            u2 = (if scheme \<noteq> [] then scheme @ '':'' @ u1 else u1);
            u3 = (if qs \<noteq> [] then u2 @ ''?'' @ qs else u2)
        in (if fragment \<noteq> [] then u3 @ ''#'' @ fragment else u3))"

definition hexval :: "char \<Rightarrow> nat option" where
  "hexval c =
     (let n = (of_char c :: nat) in
      if 48 \<le> n \<and> n \<le> 57 then Some (n - 48)
      else if 65 \<le> n \<and> n \<le> 70 then Some (n - 55)
      else if 97 \<le> n \<and> n \<le> 102 then Some (n - 87)
      else None)"

text \<open>\<^verbatim>\<open>unquote\<close>, byte by byte.\<close>

fun unquote :: "string \<Rightarrow> string" where
  "unquote (c # a # b # rest) =
     (if c = CHR ''%'' then
        (case (hexval a, hexval b) of
           (Some x, Some y) \<Rightarrow> char_of (16 * x + y) # unquote rest
         | _ \<Rightarrow> c # unquote (a # b # rest))
      else c # unquote (a # b # rest))"
| "unquote (c # rest) = c # unquote rest"
| "unquote [] = []"

text \<open>
  \<^verbatim>\<open>parse_qsl(qs)\<close> with its defaults: fields are separated by \<^verbatim>\<open>&\<close>, a field without
  \<^verbatim>\<open>=\<close> or with a blank value is dropped, \<^verbatim>\<open>+\<close> is a space.
\<close>

definition plain_parse_qsl :: "string \<Rightarrow> (string \<times> string) list" where
  "plain_parse_qsl qs =
     concat
       (map
          (\<lambda>name_value.
             if name_value = [] \<or> CHR ''='' \<notin> set name_value then []
             else
               (let nv = cut CHR ''='' name_value;
                    plus = map (\<lambda>c. if c = CHR ''+'' then CHR '' '' else c)
                in if snd nv \<noteq> [] then [(unquote (plus (fst nv)), unquote (plus (snd nv)))]
                   else []))
          (split_on CHR ''&'' qs))"

definition hexdigit :: "nat \<Rightarrow> char" where
  "hexdigit n = (if n < 10 then char_of (48 + n) else char_of (55 + n))"

definition plain_quote :: "string \<Rightarrow> string" where
  "plain_quote s =
     concat
       (map
          (\<lambda>c. if c \<in> set scheme_chars \<or> c \<in> set ''_~/'' then [c]
               else [CHR ''%'', hexdigit ((of_char c :: nat) div 16),
                     hexdigit ((of_char c :: nat) mod 16)])
          s)"

definition plain_lib :: pylib where
  "plain_lib =
     \<lparr> urlparse = plain_urlparse,
       urlsplit = plain_urlsplit,
       urlunsplit = plain_urlunsplit,
       parse_qsl = plain_parse_qsl,
       quote = plain_quote,
       parse_url = (\<lambda>u. u),
       punycode = (\<lambda>d. d),
       re_match = (\<lambda>p s. startswith s (pattern p)),
       str_pattern = (\<lambda>p. ''re.compile('' @ [CHR 0x27] @ pattern p @ [CHR 0x27] @ '')''),
       repr_pairs = (\<lambda>ps. concat (map (\<lambda>(m, u). m @ '' '' @ url_text u @ '';'') ps)),
       http_reason = (\<lambda>st. if st = 200 then Some ''OK''
                           else if st = 404 then Some ''Not Found''
                           else if st = 500 then Some ''Internal Server Error''
                           else None) \<rparr>"

text \<open>Sample objects and a sample mock for the examples.\<close>

definition no_json :: "unit \<Rightarrow> string" where
  "no_json j = ''null''"

definition sample_response :: "string \<Rightarrow> string \<Rightarrow> string \<Rightarrow> base_response" where
  "sample_response m u b = projr (Response plain_lib no_json m (Str u) (Text b) no_kwargs)"

definition sample_heap :: "ref \<Rightarrow> base_response" where
  "sample_heap r =
     (if r = 0 then sample_response ''GET'' ''http://x'' ''one''
      else if r = 1 then sample_response ''POST'' ''http://x'' ''two''
      else if r = 2 then sample_response ''GET'' ''http://x/'' ''three''
      else if r = 3 then sample_response ''GET'' ''http://y/'' ''four''
      else BaseResponse plain_lib ''GET'' (Pat (Compiled ''http://z'' 0)) None [])"

definition sample_mock :: "ref list \<Rightarrow> http_response requests_mock" where
  "sample_mock ms = (RequestsMock sample_heap 5 True None []) \<lparr> mock_matches := ms \<rparr>"

definition sample_adapter :: "http_response adapter" where
  "sample_adapter =
     \<lparr> build_response = (\<lambda>request raw. raw),
       send = (\<lambda>request. Inl (ConnectionError ''no network'' None)) \<rparr>"

definition sample_request :: "string \<Rightarrow> string \<Rightarrow> string \<Rightarrow> request" where
  "sample_request m u p =
     \<lparr> req_method = m, req_url = u, req_body = None, path_url = p, params = None \<rparr>"

text \<open>The sample mock with a \<^verbatim>\<open>response_callback\<close> that returns an exception of its own.\<close>

definition boom_mock :: "ref list \<Rightarrow> http_response requests_mock" where
  "boom_mock ms = (sample_mock ms) \<lparr> response_callback := Some (\<lambda>v. ExcVal (UserError ''boom'')) \<rparr>"


text \<open>
  The sample mock with one response, started, after a request that nothing matches: its
  call log has one record, and its response was never called.
\<close>

definition unfired_mock :: "http_response requests_mock" where
  "unfired_mock =
     fst (snd (on_request plain_lib sample_adapter (start (sample_mock [0]))
                 (sample_request ''DELETE'' ''http://q/'' ''/'')))"

section \<open>The functions of \<^verbatim>\<open>json\<close>\<close>
























section \<open>Notions for the statements\<close>

text \<open>
  Every registered reference is below the next free one, as it is in a store where objects
  are created by \<open>alloc\<close>.
\<close>

definition allocated :: "'r requests_mock \<Rightarrow> bool" where
  "allocated self = list_all (\<lambda>r. r < next_ref self) (mock_matches self)"

text \<open>Whether the object behind a reference matches a request, and the reason it gives.\<close>

definition ok :: "pylib \<Rightarrow> (ref \<Rightarrow> base_response) \<Rightarrow> request \<Rightarrow> ref \<Rightarrow> bool" where
  "ok L h request m = fst (matches L (h m) request)"

definition why :: "pylib \<Rightarrow> (ref \<Rightarrow> base_response) \<Rightarrow> request \<Rightarrow> ref \<Rightarrow> string" where
  "why L h request m = snd (matches L (h m) request)"

text \<open>
  The message that \<^verbatim>\<open>_on_request\<close> builds when nothing matches: the head, then one line
  for each registered response with its reason.
\<close>

definition no_match_message :: "pylib \<Rightarrow> 'r requests_mock \<Rightarrow> request \<Rightarrow> string" where
  "no_match_message L self request =
     error_msg_head (with_params L request)
       @ concat (map (\<lambda>m. ''- '' @ http_method (heap self m) @ '' ''
                        @ format_url L (url (heap self m)) @ '' ''
                        @ why L (heap self) request m @ [CHR 0x0A])
                  (mock_matches self))"

text \<open>The value that \<^verbatim>\<open>_parse_request_params\<close> stores for a list of values.\<close>

definition collapse :: "string list \<Rightarrow> param_value" where
  "collapse vs = (if length vs = 1 then Single (vs ! 0) else Multi vs)"

text \<open>
  A client that sends the same request object \<open>n\<close> times, going on after an answer and
  after an exception alike.
\<close>

fun repeat_request ::
  "pylib \<Rightarrow> 'r adapter \<Rightarrow> nat \<Rightarrow> 'r requests_mock \<Rightarrow> request \<Rightarrow> 'r requests_mock" where
  "repeat_request L adapter 0 self request = self"
| "repeat_request L adapter (Suc n) self request =
     (case on_request L adapter self request of
        (answer, self1, request1) \<Rightarrow> repeat_request L adapter n self1 request1)"










text \<open>The fields of the sample mock.\<close>

lemma sample_mock_fields [simp]:
  "mock_matches (sample_mock ms) = ms"
  "mock_calls (sample_mock ms) = []"
  "response_callback (sample_mock ms) = None"
  "passthru_prefixes (sample_mock ms) = []"
  "assert_all_requests_are_fired (sample_mock ms) = True"
  "heap (sample_mock ms) = sample_heap"
  "next_ref (sample_mock ms) = 5"
  by (simp_all add: sample_mock_def RequestsMock_def reset_def calls_reset_def)


section \<open>The matcher\<close>

lemma sort_eq_iff_mset: "sort xs = sort ys \<longleftrightarrow> mset xs = mset (ys :: 'a :: linorder list)"
proof
  assume "sort xs = sort ys"
  then have "mset (sort xs) = mset (sort ys)" by simp
  then show "mset xs = mset ys" by simp
next
  assume "mset xs = mset ys"
  then show "sort xs = sort ys"
    by (metis mset_sort properties_for_sort sorted_sort)
qed

text \<open>
  C6 (strict query-string matching). For a response with a literal URL \<open>u\<close> and
  \<^verbatim>\<open>match_querystring\<close> true, the URL stage of the matcher accepts the request's URL
  \<open>other\<close> exactly when the triples (scheme, netloc, path) of the two URLs are equal and
  their query parameters are equal as multisets of (key, value) pairs, whatever their
  order. The response's URL is compared in the form the code gives it first
  (\<^verbatim>\<open>_clean_unicode\<close> when it has a character above 128, then \<^verbatim>\<open>parse_url(u).url\<close>).
  The request then matches the response exactly when, besides, the methods are equal and
  every body matcher accepts the body. On \<open>plain_lib\<close>, a response for
  \<^verbatim>\<open>http://x/?a=1&b=2\<close> accepts \<^verbatim>\<open>http://x/?b=2&a=1\<close> and refuses \<^verbatim>\<open>http://x/?a=1\<close>.
\<close>

theorem strict_querystring_match:
  "(url_matches L (Str u) other True \<longleftrightarrow>
      (let spec_url = parse_url L (if has_unicode u then clean_unicode L u else u) in
       scheme_netloc_path (urlparse L spec_url) = scheme_netloc_path (urlparse L other)
       \<and> mset (parse_qsl L (query (urlparse L spec_url)))
           = mset (parse_qsl L (query (urlparse L other)))))
   \<and> (url self = Str u \<and> match_querystring self \<longrightarrow>
        (fst (matches L self request) \<longleftrightarrow>
           req_method request = http_method self
           \<and> url_matches L (Str u) (req_url request) True
           \<and> body_matches (match self) (req_body request)))
   \<and> url_matches plain_lib (Str ''http://x/?a=1&b=2'') ''http://x/?b=2&a=1'' True
   \<and> \<not> url_matches plain_lib (Str ''http://x/?a=1&b=2'') ''http://x/?a=1'' True"
proof (intro conjI)
  show "url_matches L (Str u) other True \<longleftrightarrow>
      (let spec_url = parse_url L (if has_unicode u then clean_unicode L u else u) in
       scheme_netloc_path (urlparse L spec_url) = scheme_netloc_path (urlparse L other)
       \<and> mset (parse_qsl L (query (urlparse L spec_url)))
           = mset (parse_qsl L (query (urlparse L other))))"
    by (simp add: url_matches_def url_matches_strict_def Let_def sort_eq_iff_mset)
  show "url self = Str u \<and> match_querystring self \<longrightarrow>
        (fst (matches L self request) \<longleftrightarrow>
           req_method request = http_method self
           \<and> url_matches L (Str u) (req_url request) True
           \<and> body_matches (match self) (req_body request))"
    by (simp add: matches_def)
  show "url_matches plain_lib (Str ''http://x/?a=1&b=2'') ''http://x/?b=2&a=1'' True"
    by code_simp
  show "\<not> url_matches plain_lib (Str ''http://x/?a=1&b=2'') ''http://x/?a=1'' True"
    by code_simp
qed

theorem strict_querystring_match_witness:
  "url_matches plain_lib (Str ''http://x/p?k=v&k=w'') ''http://x/p?k=w&k=v'' True
   \<and> fst (matches plain_lib (sample_response ''GET'' ''http://x/p?k=v&k=w'' ''one'')
          (sample_request ''GET'' ''http://x/p?k=w&k=v'' ''/p?k=w&k=v''))"
proof -
  let ?u = "''http://x/p?k=v&k=w''"
  let ?o = "''http://x/p?k=w&k=v''"
  let ?self = "sample_response ''GET'' ?u ''one''"
  let ?request = "sample_request ''GET'' ?o ''/p?k=w&k=v''"
  note inst = strict_querystring_match [of plain_lib ?u ?o ?self ?request]
  have p: "has_unicode ?u = False" by code_simp
  have s: "scheme_netloc_path (urlparse plain_lib ?u) = scheme_netloc_path (urlparse plain_lib ?o)"
    by code_simp
  have q1: "parse_qsl plain_lib (query (urlparse plain_lib ?u)) = [(''k'', ''v''), (''k'', ''w'')]"
    by code_simp
  have q2: "parse_qsl plain_lib (query (urlparse plain_lib ?o)) = [(''k'', ''w''), (''k'', ''v'')]"
    by code_simp
  have n: "parse_url plain_lib ?u = ?u"
    by (simp add: plain_lib_def)
  have um: "url_matches plain_lib (Str ?u) ?o True"
    using conjunct1 [OF inst] by (simp add: p s q1 q2 n add.commute)
  have h: "url ?self = Str ?u \<and> match_querystring ?self" by code_simp
  have r: "req_method ?request = http_method ?self \<and> req_url ?request = ?o
           \<and> body_matches (match ?self) (req_body ?request)"
    by code_simp
  have "fst (matches plain_lib ?self ?request)"
    using conjunct1 [OF conjunct2 [OF inst]] h r um by simp
  with um show ?thesis by blast
qed

section \<open>The registry\<close>

lemma list_remove_filter:
  "contains h x ms \<Longrightarrow>
     \<exists>ms'. list_remove h x ms = Inr ms'
       \<and> filter (\<lambda>m. \<not> eq (h m) x) ms' = filter (\<lambda>m. \<not> eq (h m) x) ms"
  by (induction ms) (auto simp: contains_def)

lemma not_contains_filter:
  "\<not> contains h x ms \<Longrightarrow> filter (\<lambda>m. \<not> eq (h m) x) ms = ms"
  by (induction ms) (auto simp: contains_def)

text \<open>The loop of \<^verbatim>\<open>remove\<close> ends without an exception, with the entries that are not equal.\<close>

lemma remove_loop_filter:
  "remove_loop h x ms = (None, filter (\<lambda>m. \<not> eq (h m) x) ms)"
proof (induction h x ms rule: remove_loop.induct)
  case (1 h response ms)
  show ?case
  proof (cases "contains h response ms")
    case True
    then obtain ms' where r: "list_remove h response ms = Inr ms'"
      and f: "filter (\<lambda>m. \<not> eq (h m) response) ms' = filter (\<lambda>m. \<not> eq (h m) response) ms"
      using list_remove_filter by blast
    have "remove_loop h response ms = remove_loop h response ms'"
      using True r by (subst remove_loop.simps) simp
    also have "\<dots> = (None, filter (\<lambda>m. \<not> eq (h m) response) ms')"
      using "1.IH" [OF True r] .
    finally show ?thesis using f by simp
  next
    case False
    then show ?thesis
      by (subst remove_loop.simps) (simp add: not_contains_filter)
  qed
qed



lemma list_index_Inr:
  "list_index h x ms = Inr i \<Longrightarrow>
     i < length ms \<and> eq (h (ms ! i)) x \<and> (\<forall>j<i. \<not> eq (h (ms ! j)) x)"
proof (induction ms arbitrary: i)
  case Nil
  then show ?case by simp
next
  case (Cons m ms)
  show ?case
  proof (cases "eq (h m) x")
    case True
    with Cons.prems show ?thesis by simp
  next
    case False
    with Cons.prems obtain k where k: "list_index h x ms = Inr k" and i: "i = Suc k"
      by (auto split: sum.splits)
    from Cons.IH [OF k] False i show ?thesis
      by (auto simp: less_Suc_eq_0_disj)
  qed
qed

lemma list_index_Inl:
  "list_index h x ms = Inl e \<Longrightarrow> \<forall>m\<in>set ms. \<not> eq (h m) x"
  by (induction ms) (auto split: if_splits sum.splits)

lemma list_index_cong:
  "\<forall>m\<in>set ms. h m = h' m \<Longrightarrow> list_index h x ms = list_index h' x ms"
  by (induction ms) auto

text \<open>Creating the response of \<^verbatim>\<open>replace\<close> touches the store above the registered references only.\<close>

lemma new_response_frame:
  assumes "new_response L dumps self t = Inr (u, r, self1)"
  shows "mock_matches self1 = mock_matches self"
    and "\<forall>m<next_ref self. heap self1 m = heap self m"
    and "case t of
           Obj r' \<Rightarrow> r = r' \<and> self1 = self
         | New m u' b kw \<Rightarrow> r = next_ref self \<and> Response L dumps m u' b kw = Inr (heap self1 r)"
  using assms
  by (auto simp: new_response_def alloc_def split: target.splits sum.splits)

text \<open>
  C8 (\<^verbatim>\<open>replace\<close> and \<^verbatim>\<open>upsert\<close>). Let the response of the call be the object \<open>r\<close>: the
  object given, or the \<^verbatim>\<open>Response\<close> that the call creates (then \<open>self1\<close> is the mock with
  that one object more in the store). If some entry of \<^verbatim>\<open>_matches\<close> is equal to it,
  \<^verbatim>\<open>replace\<close> puts \<open>r\<close> at the index \<open>i\<close> of the first such entry and changes no other
  entry, and \<^verbatim>\<open>upsert\<close> does the same. If no entry is equal, \<^verbatim>\<open>replace\<close> raises the
  \<^verbatim>\<open>ValueError\<close> "Response is not registered for URL ..." and leaves \<^verbatim>\<open>_matches\<close>
  as it was, and \<^verbatim>\<open>upsert\<close> is \<^verbatim>\<open>add\<close> with the same arguments.
\<close>

theorem replace_upsert_semantics:
  assumes "allocated self" and "new_response L dumps self t = Inr (u, r, self1)"
  shows "mock_matches self1 = mock_matches self
    \<and> (case t of
         Obj r' \<Rightarrow> r = r' \<and> self1 = self
       | New m u' b kw \<Rightarrow> r = next_ref self \<and> Response L dumps m u' b kw = Inr (heap self1 r))
    \<and> (if \<exists>m\<in>set (mock_matches self). eq (heap self m) (heap self1 r) then
         (\<exists>i<length (mock_matches self).
             eq (heap self (mock_matches self ! i)) (heap self1 r)
           \<and> (\<forall>j<i. \<not> eq (heap self (mock_matches self ! j)) (heap self1 r))
           \<and> replace L dumps self t
               = (Inr (), self1 \<lparr> mock_matches := (mock_matches self)[i := r] \<rparr>))
         \<and> upsert L dumps self t adding_headers = replace L dumps self t
       else
         replace L dumps self t
           = (Inl (ValueError (''Response is not registered for URL '' @ format_url L u)), self1)
         \<and> upsert L dumps self t adding_headers = add L dumps self1 t adding_headers)"
proof -
  let ?ms = "mock_matches self"
  let ?key = "heap self1 r"
  note fr = new_response_frame [OF assms(2)]
  have same: "\<forall>m\<in>set ?ms. heap self1 m = heap self m"
    using assms(1) fr(2) by (auto simp: allocated_def list_all_iff)
  have idx: "list_index (heap self1) ?key (mock_matches self1) = list_index (heap self) ?key ?ms"
    using list_index_cong [OF same] fr(1) by simp
  show ?thesis
  proof (cases "list_index (heap self) ?key ?ms")
    case (Inl e)
    then have none: "\<not> (\<exists>m\<in>set ?ms. eq (heap self m) ?key)"
      using list_index_Inl by blast
    have rep: "replace L dumps self t
           = (Inl (ValueError (''Response is not registered for URL '' @ format_url L u)), self1)"
      using assms(2) idx Inl by (simp add: replace_def)
    have ups: "upsert L dumps self t adding_headers = add L dumps self1 t adding_headers"
      by (simp add: upsert_def rep)
    show ?thesis using fr(1) fr(3) none rep ups by simp
  next
    case (Inr i)
    note ii = list_index_Inr [OF Inr]
    then have some: "\<exists>m\<in>set ?ms. eq (heap self m) ?key"
      using nth_mem by blast
    have rep: "replace L dumps self t = (Inr (), self1 \<lparr> mock_matches := ?ms[i := r] \<rparr>)"
      using assms(2) idx Inr fr(1) by (simp add: replace_def)
    have ups: "upsert L dumps self t adding_headers = replace L dumps self t"
      by (simp add: upsert_def rep)
    show ?thesis using fr(1) fr(3) some rep ups ii by auto
  qed
qed

theorem replace_upsert_semantics_witness:
  "allocated (sample_mock [3, 0, 2, 4])
   \<and> mock_matches (snd (replace plain_lib no_json (sample_mock [3, 0, 2, 4])
        (New ''GET'' (Str ''http://x'') (Text ''new'') no_kwargs))) = [3, 5, 2, 4]
   \<and> upsert plain_lib no_json (sample_mock [3, 0, 2, 4])
        (New ''GET'' (Str ''http://x'') (Text ''new'') no_kwargs) None
      = replace plain_lib no_json (sample_mock [3, 0, 2, 4])
          (New ''GET'' (Str ''http://x'') (Text ''new'') no_kwargs)"
proof -
  let ?s = "sample_mock [3, 0, 2, 4]"
  let ?t = "New ''GET'' (Str ''http://x'') (Text ''new'') no_kwargs :: unit target"
  let ?x = "new_response plain_lib no_json ?s ?t"
  have a: "allocated ?s" by code_simp
  have "\<not> isl ?x" by code_simp
  then have x: "?x = Inr (fst (projr ?x), fst (snd (projr ?x)), snd (snd (projr ?x)))"
    by (cases ?x) auto
  have ex: "\<exists>m\<in>set (mock_matches ?s). eq (heap ?s m) (heap (snd (snd (projr ?x))) (fst (snd (projr ?x))))"
    by code_simp
  have r: "mock_matches (snd (replace plain_lib no_json ?s ?t)) = [3, 5, 2, 4]"
    by code_simp
  from replace_upsert_semantics [OF a x, of None] ex
  have "upsert plain_lib no_json ?s ?t None = replace plain_lib no_json ?s ?t"
    by simp
  with a r show ?thesis by blast
qed

section \<open>Dispatch\<close>

lemma loop_step:
  "find_match_loop L h request ((i, m) # rest) found rs =
     (if ok L h request m then
        (case found of
           None \<Rightarrow> find_match_loop L h request rest (Some (i, m)) rs
         | Some f \<Rightarrow> (True, found, rs))
      else find_match_loop L h request rest found (rs @ [why L h request m]))"
  by (cases "matches L (h m) request") (simp add: ok_def why_def)

declare find_match_loop.simps(2) [simp del]

lemma loop_found:
  "find_match_loop L h request (enumerate k ms) (Some f) rs =
     (if \<forall>m\<in>set ms. \<not> ok L h request m
      then (False, Some f, rs @ map (why L h request) ms)
      else (True, Some f, rs @ map (why L h request) (takeWhile (\<lambda>m. \<not> ok L h request m) ms)))"
proof (induction ms arbitrary: k rs)
  case Nil
  then show ?case by simp
next
  case (Cons m ms)
  show ?case
  proof (cases "ok L h request m")
    case True
    then show ?thesis
      by (simp add: loop_step)
  next
    case False
    then show ?thesis
      using Cons.IH [of "Suc k" "rs @ [why L h request m]"]
      by (simp add: loop_step)
  qed
qed

lemma loop_none:
  "\<forall>m\<in>set ms. \<not> ok L h request m \<Longrightarrow>
     find_match_loop L h request (enumerate k ms) None rs
       = (False, None, rs @ map (why L h request) ms)"
proof (induction ms arbitrary: k rs)
  case Nil
  then show ?case by simp
next
  case (Cons m ms)
  then show ?case
    using Cons.IH [of "Suc k" "rs @ [why L h request m]"]
    by (simp add: loop_step)
qed

lemma loop_first:
  "\<forall>m\<in>set pre. \<not> ok L h request m \<Longrightarrow> ok L h request m1 \<Longrightarrow>
     find_match_loop L h request (enumerate k (pre @ m1 # rest)) None rs
       = find_match_loop L h request (enumerate (Suc (k + length pre)) rest)
           (Some (k + length pre, m1)) (rs @ map (why L h request) pre)"
proof (induction pre arbitrary: k rs)
  case Nil
  then show ?case by (simp add: loop_step)
next
  case (Cons m pre)
  then show ?case
    using Cons.IH [of "Suc k" "rs @ [why L h request m]"]
    by (simp add: loop_step)
qed

lemma find_match_none:
  assumes "\<forall>m\<in>set (mock_matches self). \<not> ok L (heap self) request m"
  shows "find_match L self request
           = (Inr (None, map (why L (heap self) request) (mock_matches self)), self)"
  using loop_none [OF assms, of 0 "[]"] by (simp add: find_match_def)

lemma find_match_one:
  assumes "mock_matches self = pre @ m1 # post"
    and "\<forall>m\<in>set pre. \<not> ok L (heap self) request m"
    and "ok L (heap self) request m1"
    and "\<forall>m\<in>set post. \<not> ok L (heap self) request m"
  shows "find_match L self request
           = (Inr (Some m1, map (why L (heap self) request) (pre @ post)), self)"
  using loop_first [OF assms(2,3), of 0 post "[]"] assms(1,4)
  by (simp add: find_match_def loop_found)

lemma pop_middle: "pop (pre @ m1 # rest) (length pre) = Inr (m1, pre @ rest)"
  by (simp add: pop_def)

lemma find_match_many:
  assumes "mock_matches self = pre @ m1 # rest"
    and "\<forall>m\<in>set pre. \<not> ok L (heap self) request m"
    and "ok L (heap self) request m1"
    and "\<not> (\<forall>m\<in>set rest. \<not> ok L (heap self) request m)"
  shows "find_match L self request
           = (Inr (Some m1, map (why L (heap self) request)
                              (pre @ takeWhile (\<lambda>m. \<not> ok L (heap self) request m) rest)),
              self \<lparr> mock_matches := pre @ rest \<rparr>)"
  using loop_first [OF assms(2,3), of 0 rest "[]"] assms(1,4)
  by (simp add: find_match_def loop_found pop_middle)


lemma matches_call_count [simp]:
  "matches L (x \<lparr> call_count := n \<rparr>) request = matches L x request"
  by (simp add: matches_def)

lemma matches_request_cong:
  "req_method r' = req_method r \<Longrightarrow> req_url r' = req_url r \<Longrightarrow> req_body r' = req_body r \<Longrightarrow>
     matches L x r' = matches L x r"
  by (simp add: matches_def)

lemma ok_incr [simp]:
  "ok L (heap (incr_call_count self m)) request = ok L (heap self) request"
  by (rule ext) (simp add: ok_def incr_call_count_def)

lemma respond_matches [simp]:
  "mock_matches (fst (snd (respond L adapter self m request))) = mock_matches self"
  by (simp add: respond_def incr_call_count_def calls_add_def Let_def split: sum.splits)

lemma respond_heap:
  "heap (fst (snd (respond L adapter self m request)))
     = (heap self)(m := (heap self m) \<lparr> call_count := call_count (heap self m) + 1 \<rparr>)"
  by (simp add: respond_def incr_call_count_def calls_add_def Let_def split: sum.splits)

lemma respond_answer:
  "fst (respond L adapter self m request) =
     (case get_response L (heap self m) request of
        Inl e \<Rightarrow> Inl e
      | Inr raw \<Rightarrow>
          Inr (apply_callback (response_callback self)
                 (RespVal (build_response adapter request raw))))"
  by (simp add: respond_def Let_def split: sum.splits)

lemma respond_request [simp]:
  "snd (snd (respond L adapter self m request)) = request"
  by (simp add: respond_def Let_def split: sum.splits)


lemma ok_respond:
  "ok L (heap (fst (snd (respond L adapter self m request)))) request' = ok L (heap self) request'"
  by (rule ext) (simp add: ok_def respond_heap)

lemma with_params_fields [simp]:
  "req_method (with_params L request) = req_method request"
  "req_url (with_params L request) = req_url request"
  "req_body (with_params L request) = req_body request"
  "path_url (with_params L request) = path_url request"
  by (simp_all add: with_params_def)

lemma on_request_matched:
  assumes "find_match L self request = (Inr (Some m, rs), self1)"
  shows "on_request L adapter self request = respond L adapter self1 m (with_params L request)"
  using assms by (simp add: on_request_def Let_def)

text \<open>
  Whenever the first matching entry is followed by another matching entry, the dispatch
  takes the first one out of \<^verbatim>\<open>_matches\<close> and answers with it.
\<close>

lemma first_of_several_is_consumed:
  assumes "mock_matches self = pre @ S1 # rest"
    and "\<forall>m\<in>set pre. \<not> fst (matches L (heap self m) request)"
    and "fst (matches L (heap self S1) request)"
    and "\<exists>m\<in>set rest. fst (matches L (heap self m) request)"
  shows "on_request L adapter self request
           = respond L adapter (self \<lparr> mock_matches := pre @ rest \<rparr>) S1 (with_params L request)"
proof -
  have "find_match L self request
           = (Inr (Some S1, map (why L (heap self) request)
                              (pre @ takeWhile (\<lambda>m. \<not> ok L (heap self) request m) rest)),
              self \<lparr> mock_matches := pre @ rest \<rparr>)"
    using assms by (intro find_match_many) (auto simp: ok_def)
  then show ?thesis by (rule on_request_matched)
qed

text \<open>
  C1 (one-shot consumption). Let \<^verbatim>\<open>_matches\<close> hold \<open>S1\<close> and, after it, \<open>S2\<close>, both
  matching the request, and no other entry that matches. The first dispatch takes \<open>S1\<close>
  out of \<^verbatim>\<open>_matches\<close>, at the place where it stood, and its answer is the one that \<open>S1\<close>
  gives: the exception that \<^verbatim>\<open>get_response\<close> of \<open>S1\<close> raises, or the response built
  from what it returns, passed through \<^verbatim>\<open>response_callback\<close>. A second dispatch of a
  request with the same method, URL and body is answered in the same way by \<open>S2\<close>, and
  \<open>S2\<close> stays in \<^verbatim>\<open>_matches\<close>.
\<close>

theorem one_shot_consumption:
  assumes reg: "mock_matches self = pre @ S1 # mid @ S2 # post"
    and m1: "fst (matches L (heap self S1) request)"
    and m2: "fst (matches L (heap self S2) request)"
    and others: "\<forall>m\<in>set (pre @ mid @ post). \<not> fst (matches L (heap self m) request)"
    and d1: "on_request L adapter self request = (answer1, self1, request1)"
    and again: "req_method request' = req_method request" "req_url request' = req_url request"
      "req_body request' = req_body request"
    and d2: "on_request L adapter self1 request' = (answer2, self2, request2)"
  shows "mock_matches self1 = pre @ mid @ S2 # post
    \<and> answer1 =
        (case get_response L (heap self S1) request1 of
           Inl e \<Rightarrow> Inl e
         | Inr raw \<Rightarrow>
             Inr (apply_callback (response_callback self)
                    (RespVal (build_response adapter request1 raw))))
    \<and> answer2 =
        (case get_response L (heap self1 S2) request2 of
           Inl e \<Rightarrow> Inl e
         | Inr raw \<Rightarrow>
             Inr (apply_callback (response_callback self1)
                    (RespVal (build_response adapter request2 raw))))
    \<and> mock_matches self2 = pre @ mid @ S2 # post"
proof -
  let ?h = "heap self"
  let ?popped = "self \<lparr> mock_matches := pre @ mid @ S2 # post \<rparr>"
  have pre_no: "\<forall>m\<in>set pre. \<not> ok L ?h request m"
    and mid_no: "\<forall>m\<in>set mid. \<not> ok L ?h request m"
    and post_no: "\<forall>m\<in>set post. \<not> ok L ?h request m"
    using others by (auto simp: ok_def)
  have ok1: "ok L ?h request S1" and ok2: "ok L ?h request S2"
    using m1 m2 by (simp_all add: ok_def)
  have rest: "\<not> (\<forall>m\<in>set (mid @ S2 # post). \<not> ok L ?h request m)"
    using ok2 by simp
  have tw: "takeWhile (\<lambda>m. \<not> ok L ?h request m) (mid @ S2 # post) = mid"
    using mid_no ok2 by simp
  have f1: "find_match L self request
              = (Inr (Some S1, map (why L ?h request) (pre @ mid)), ?popped)"
    using find_match_many [of self pre S1 "mid @ S2 # post" L request, OF _ pre_no ok1 rest] reg tw
    by simp
  have r1: "(answer1, self1, request1) = respond L adapter ?popped S1 (with_params L request)"
    using on_request_matched [OF f1] d1 by simp
  have a1: "answer1 = fst (respond L adapter ?popped S1 (with_params L request))"
    and s1: "self1 = fst (snd (respond L adapter ?popped S1 (with_params L request)))"
    and q1: "request1 = with_params L request"
    using r1 by (metis fst_conv, metis fst_conv snd_conv, metis snd_conv respond_request)
  have reg1: "mock_matches self1 = pre @ mid @ S2 # post"
    using s1 by simp
  have ok_same: "ok L (heap self1) request' = ok L ?h request"
  proof (rule ext)
    fix m
    have "ok L (heap self1) request' m = ok L (heap ?popped) request' m"
      using s1 ok_respond [of L adapter ?popped S1 "with_params L request" request'] by simp
    also have "\<dots> = ok L ?h request m"
      using matches_request_cong [OF again] by (simp add: ok_def)
    finally show "ok L (heap self1) request' m = ok L ?h request m" .
  qed
  have f2: "find_match L self1 request'
              = (Inr (Some S2, map (why L (heap self1) request') ((pre @ mid) @ post)), self1)"
    using find_match_one [of self1 "pre @ mid" S2 post L request'] reg1 ok_same
      pre_no mid_no post_no ok2
    by auto
  have r2: "(answer2, self2, request2) = respond L adapter self1 S2 (with_params L request')"
    using on_request_matched [OF f2] d2 by simp
  have a2: "answer2 = fst (respond L adapter self1 S2 (with_params L request'))"
    and s2: "self2 = fst (snd (respond L adapter self1 S2 (with_params L request')))"
    and q2: "request2 = with_params L request'"
    using r2 by (metis fst_conv, metis fst_conv snd_conv, metis snd_conv respond_request)
  have reg2: "mock_matches self2 = pre @ mid @ S2 # post"
    using s2 reg1 by simp
  show ?thesis
    using reg1 reg2 a1 a2 q1 q2 by (simp add: respond_answer split: sum.splits)
qed


theorem one_shot_consumption_witness:
  "mock_matches (fst (snd (on_request plain_lib sample_adapter (sample_mock [3, 0, 2, 4])
       (sample_request ''GET'' ''http://x/'' ''/'')))) = [3, 2, 4]
   \<and> mock_matches (fst (snd (on_request plain_lib sample_adapter
         (fst (snd (on_request plain_lib sample_adapter (sample_mock [3, 0, 2, 4])
            (sample_request ''GET'' ''http://x/'' ''/''))))
         (sample_request ''GET'' ''http://x/'' ''/'')))) = [3, 2, 4]"
proof -
  let ?s = "sample_mock [3, 0, 2, 4]"
  let ?r = "sample_request ''GET'' ''http://x/'' ''/''"
  let ?d1 = "on_request plain_lib sample_adapter ?s ?r"
  let ?d2 = "on_request plain_lib sample_adapter (fst (snd ?d1)) ?r"
  have reg: "mock_matches ?s = [3] @ 0 # [] @ 2 # [4]"
    by simp
  have m1: "fst (matches plain_lib (heap ?s 0) ?r)" by code_simp
  have m2: "fst (matches plain_lib (heap ?s 2) ?r)" by code_simp
  have others: "\<forall>m\<in>set ([3] @ [] @ [4]). \<not> fst (matches plain_lib (heap ?s m) ?r)"
    by code_simp
  have d1: "?d1 = (fst ?d1, fst (snd ?d1), snd (snd ?d1))" by simp
  have d2: "?d2 = (fst ?d2, fst (snd ?d2), snd (snd ?d2))" by simp
  show ?thesis
    using one_shot_consumption [OF reg m1 m2 others d1 refl refl refl d2] by simp
qed

lemma single_match_step:
  assumes reg: "mock_matches self = pre @ S # post"
    and m: "fst (matches L (heap self S) request)"
    and others: "\<forall>m\<in>set (pre @ post). \<not> fst (matches L (heap self m) request)"
    and d: "on_request L adapter self request = (answer, self1, request1)"
  shows "mock_matches self1 = mock_matches self"
    and "heap self1 = (heap self)(S := (heap self S) \<lparr> call_count := call_count (heap self S) + 1 \<rparr>)"
    and "request1 = with_params L request"
proof -
  have f: "find_match L self request
             = (Inr (Some S, map (why L (heap self) request) (pre @ post)), self)"
    using find_match_one [of self pre S post L request] reg m others by (auto simp: ok_def)
  have r: "(answer, self1, request1) = respond L adapter self S (with_params L request)"
    using on_request_matched [OF f] d by simp
  have s1: "self1 = fst (snd (respond L adapter self S (with_params L request)))"
    using r by (metis fst_conv snd_conv)
  show "mock_matches self1 = mock_matches self" using s1 by simp
  show "heap self1 = (heap self)(S := (heap self S) \<lparr> call_count := call_count (heap self S) + 1 \<rparr>)"
    using s1 by (simp add: respond_heap)
  show "request1 = with_params L request"
    using r by (metis snd_conv respond_request)
qed

text \<open>
  C2 (single match). Let \<open>S\<close> be the one entry of \<^verbatim>\<open>_matches\<close> that matches the
  request. After \<open>n\<close> dispatches of the request, \<^verbatim>\<open>_matches\<close> is what it was, and the
  \<^verbatim>\<open>call_count\<close> of \<open>S\<close> has grown by \<open>n\<close>: by one with each dispatch, whether it
  returned a response or raised the exception of \<open>S\<close>.
\<close>

theorem single_match_is_kept:
  assumes "mock_matches self = pre @ S # post"
    and "fst (matches L (heap self S) request)"
    and "\<forall>m\<in>set (pre @ post). \<not> fst (matches L (heap self m) request)"
  shows "mock_matches (repeat_request L adapter n self request) = mock_matches self
    \<and> call_count (heap (repeat_request L adapter n self request) S)
        = call_count (heap self S) + n"
  using assms
proof (induction n arbitrary: self request)
  case 0
  then show ?case by simp
next
  case (Suc n)
  obtain answer self1 request1
    where d: "on_request L adapter self request = (answer, self1, request1)"
    by (cases "on_request L adapter self request") auto
  note st = single_match_step [OF Suc.prems d]
  have same: "\<And>m. matches L (heap self1 m) request1 = matches L (heap self m) request"
    using st(2,3) by (simp add: with_params_def matches_def)
  have "mock_matches (repeat_request L adapter n self1 request1) = mock_matches self1
    \<and> call_count (heap (repeat_request L adapter n self1 request1) S)
        = call_count (heap self1 S) + n"
    using Suc.prems st(1) by (intro Suc.IH) (simp_all add: same)
  then show ?case
    using d st(1,2) by simp
qed

theorem single_match_is_kept_witness:
  "mock_matches (repeat_request plain_lib sample_adapter 3 (sample_mock [3, 0, 4])
      (sample_request ''GET'' ''http://x/'' ''/'')) = [3, 0, 4]
   \<and> call_count (heap (repeat_request plain_lib sample_adapter 3 (sample_mock [3, 0, 4])
      (sample_request ''GET'' ''http://x/'' ''/'')) 0) = 3"
proof -
  let ?s = "sample_mock [3, 0, 4]"
  let ?r = "sample_request ''GET'' ''http://x/'' ''/''"
  have reg: "mock_matches ?s = [3] @ 0 # [4]"
    by (simp add: sample_mock_def)
  have m: "fst (matches plain_lib (heap ?s 0) ?r)" by code_simp
  have others: "\<forall>m\<in>set ([3] @ [4]). \<not> fst (matches plain_lib (heap ?s m) ?r)"
    by code_simp
  have c: "call_count (sample_heap 0) = 0" by code_simp
  show ?thesis
    using single_match_is_kept [OF reg m others, of sample_adapter 3] by (simp add: c)
qed

lemma available_matches_all:
  "available_matches L h (rs0 @ map (why L h request) ms) (enumerate (length rs0) ms) acc
     = Inr (acc @ concat (map (\<lambda>m. ''- '' @ http_method (h m) @ '' '' @ format_url L (url (h m))
                                  @ '' '' @ why L h request m @ [CHR 0x0A]) ms))"
proof (induction ms arbitrary: rs0 acc)
  case Nil
  then show ?case by simp
next
  case (Cons m ms)
  show ?case
    using Cons.IH [of "rs0 @ [why L h request m]"]
    by (simp add: nth_append)
qed

lemma sublist_concat_map: "m \<in> set ms \<Longrightarrow> sublist (f m) (acc @ concat (map f ms))"
proof -
  assume "m \<in> set ms"
  then obtain a b where "ms = a @ m # b" by (meson split_list)
  then have "acc @ concat (map f ms) = (acc @ concat (map f a)) @ f m @ concat (map f b)"
    by simp
  then show ?thesis by (metis sublist_appendI)
qed

lemma head_has_method: "sublist (req_method request) (error_msg_head request @ rest)"
proof -
  have "\<exists>a b. error_msg_head request @ rest = a @ req_method request @ b"
    unfolding error_msg_head_def by (metis append.assoc)
  then show ?thesis by (auto simp: sublist_def)
qed

lemma head_has_url: "sublist (req_url request) (error_msg_head request @ rest)"
proof -
  have "\<exists>a b. error_msg_head request @ rest = a @ req_url request @ b"
    unfolding error_msg_head_def by (metis append.assoc)
  then show ?thesis by (auto simp: sublist_def)
qed

text \<open>The dispatch when nothing matches and no passthru prefix allows the URL.\<close>

lemma on_request_no_match:
  assumes "\<forall>m\<in>set (mock_matches self). \<not> fst (matches L (heap self m) request)"
    and "\<not> allowed_passthru L (passthru_prefixes self) (req_url request)"
  shows "on_request L adapter self request
        = (Inl (raise_value (apply_callback (response_callback self)
                  (ExcVal (ConnectionError (no_match_message L self request)
                             (Some (with_params L request)))))),
           self \<lparr> mock_calls := mock_calls self
                    @ [(with_params L request,
                        ExcVal (ConnectionError (no_match_message L self request)
                                  (Some (with_params L request))))] \<rparr>,
           with_params L request)"
proof -
  let ?h = "heap self"
  let ?ms = "mock_matches self"
  have f: "find_match L self request = (Inr (None, map (why L ?h request) ?ms), self)"
    using find_match_none [of self L request] assms(1) by (simp add: ok_def)
  have av: "available_matches L ?h (map (why L ?h request) ?ms) (enumerate 0 ?ms)
              (error_msg_head (with_params L request)) = Inr (no_match_message L self request)"
    using available_matches_all [of L ?h "[]" request ?ms "error_msg_head (with_params L request)"]
    by (simp add: no_match_message_def)
  show ?thesis
    using assms(2) by (simp add: on_request_def f av calls_add_def Let_def)
qed

lemma no_match_message_contains:
  "sublist (req_method request) (no_match_message L self request)"
  "sublist (req_url request) (no_match_message L self request)"
  "\<forall>m\<in>set (mock_matches self).
     sublist (''- '' @ http_method (heap self m) @ '' '' @ format_url L (url (heap self m))
                @ '' '' @ snd (matches L (heap self m) request) @ [CHR 0x0A])
       (no_match_message L self request)"
proof -
  show "sublist (req_method request) (no_match_message L self request)"
    using head_has_method [of "with_params L request"] by (simp add: no_match_message_def)
  show "sublist (req_url request) (no_match_message L self request)"
    using head_has_url [of "with_params L request"] by (simp add: no_match_message_def)
  let ?line = "\<lambda>m. ''- '' @ http_method (heap self m) @ '' '' @ format_url L (url (heap self m))
                       @ '' '' @ why L (heap self) request m @ [CHR 0x0A]"
  have "\<forall>m\<in>set (mock_matches self). sublist (?line m) (no_match_message L self request)"
    unfolding no_match_message_def
    using sublist_concat_map [of _ "mock_matches self" ?line] by blast
  then show "\<forall>m\<in>set (mock_matches self).
     sublist (''- '' @ http_method (heap self m) @ '' '' @ format_url L (url (heap self m))
                @ '' '' @ snd (matches L (heap self m) request) @ [CHR 0x0A])
       (no_match_message L self request)"
    by (simp add: why_def)
qed

text \<open>
  C5 (no match), as amended. When no registered response matches the request and no
  passthru prefix allows it, the dispatch creates a \<^verbatim>\<open>ConnectionError\<close> whose message
  contains the request's method and URL and, for each registered response, a line with its
  method, its URL and the reason why it did not match. It appends the pair of the request and
  that error to \<^verbatim>\<open>_calls\<close> and then raises what \<^verbatim>\<open>response_callback\<close> returns for the
  error: the error itself when the mock has no \<^verbatim>\<open>response_callback\<close>.
\<close>

theorem no_match_connection_error:
  assumes "\<forall>m\<in>set (mock_matches self). \<not> fst (matches L (heap self m) request)"
    and "\<not> allowed_passthru L (passthru_prefixes self) (req_url request)"
  shows "\<exists>msg err.
      err = ConnectionError msg (Some (with_params L request))
    \<and> on_request L adapter self request
        = (Inl (raise_value (apply_callback (response_callback self) (ExcVal err))),
           self \<lparr> mock_calls := mock_calls self @ [(with_params L request, ExcVal err)] \<rparr>,
           with_params L request)
    \<and> (response_callback self = None
         \<longrightarrow> fst (on_request L adapter self request) = Inl err)
    \<and> sublist (req_method request) msg
    \<and> sublist (req_url request) msg
    \<and> (\<forall>m\<in>set (mock_matches self).
          sublist (''- '' @ http_method (heap self m) @ '' '' @ format_url L (url (heap self m))
                     @ '' '' @ snd (matches L (heap self m) request) @ [CHR 0x0A]) msg)"
proof -
  note run = on_request_no_match [OF assms, of adapter]
  have nocb: "response_callback self = None
         \<longrightarrow> fst (on_request L adapter self request)
               = Inl (ConnectionError (no_match_message L self request)
                        (Some (with_params L request)))"
    by (simp add: run apply_callback_def)
  show ?thesis
    apply (intro exI conjI)
         apply (rule refl)
        apply (rule run)
       apply (rule nocb)
      apply (rule no_match_message_contains(1))
     apply (rule no_match_message_contains(2))
    apply (rule no_match_message_contains(3))
    done
qed

theorem no_match_connection_error_witness:
  "\<exists>msg. fst (on_request plain_lib sample_adapter (sample_mock [3, 0, 4])
              (sample_request ''DELETE'' ''http://q/'' ''/''))
          = Inl (ConnectionError msg
                   (Some (with_params plain_lib (sample_request ''DELETE'' ''http://q/'' ''/''))))
        \<and> sublist ''DELETE'' msg \<and> sublist ''http://q/'' msg"
proof -
  let ?s = "sample_mock [3, 0, 4]"
  let ?r = "sample_request ''DELETE'' ''http://q/'' ''/''"
  have none: "\<forall>m\<in>set (mock_matches ?s). \<not> fst (matches plain_lib (heap ?s m) ?r)"
    by code_simp
  have nopass: "\<not> allowed_passthru plain_lib (passthru_prefixes ?s) (req_url ?r)"
    by code_simp
  have cb: "response_callback ?s = None"
    by (simp add: sample_mock_def RequestsMock_def reset_def calls_reset_def)
  have m: "req_method ?r = ''DELETE''" "req_url ?r = ''http://q/''"
    by (simp_all add: sample_request_def)
  from no_match_connection_error [OF none nopass, of sample_adapter] cb m
  show ?thesis by auto
qed

theorem raised_error_counterexample:
  "\<not> fst (matches plain_lib (heap (boom_mock [0]) 0) (sample_request ''DELETE'' ''http://q/'' ''/''))
   \<and> \<not> allowed_passthru plain_lib (passthru_prefixes (boom_mock [0]))
         (req_url (sample_request ''DELETE'' ''http://q/'' ''/''))
   \<and> fst (on_request plain_lib sample_adapter (boom_mock [0])
            (sample_request ''DELETE'' ''http://q/'' ''/'')) = Inl (UserError ''boom'')
   \<and> \<not> sublist (req_method (sample_request ''DELETE'' ''http://q/'' ''/''))
         (message (UserError ''boom''))"
proof -
  let ?s = "boom_mock [0]"
  let ?r = "sample_request ''DELETE'' ''http://q/'' ''/''"
  have n0: "\<not> fst (matches plain_lib (heap ?s 0) ?r)" by code_simp
  have none: "\<forall>m\<in>set (mock_matches ?s). \<not> fst (matches plain_lib (heap ?s m) ?r)"
    by code_simp
  have nopass: "\<not> allowed_passthru plain_lib (passthru_prefixes ?s) (req_url ?r)"
    by code_simp
  have cb: "response_callback ?s = Some (\<lambda>v. ExcVal (UserError ''boom''))"
    by (simp add: boom_mock_def)
  have ns: "\<not> sublist (req_method ?r) (message (UserError ''boom''))" by code_simp
  have "fst (on_request plain_lib sample_adapter ?s ?r) = Inl (UserError ''boom'')"
    by (simp add: on_request_no_match [OF none nopass] cb apply_callback_def)
  with n0 nopass ns show ?thesis by blast
qed





section \<open>Parameters of the request\<close>

text \<open>
  C4 (query parameters of the request), where the code departs from it. The claim gives a
  key that occurs more than once the list of all its values. \<^verbatim>\<open>itertools.groupby\<close>
  groups consecutive pairs only, and a later group of a key overwrites the earlier one in
  \<^verbatim>\<open>params\<close>. For the query \<^verbatim>\<open>a=1&b=2&a=3\<close> the key \<^verbatim>\<open>a\<close>, which occurs twice, is
  mapped to the single value \<^verbatim>\<open>3\<close>, not to the list of \<^verbatim>\<open>1\<close> and \<^verbatim>\<open>3\<close>; the request
  that the dispatch leaves carries this mapping.
\<close>

theorem repeated_key_apart_keeps_last_value:
  "parse_qsl plain_lib (query (urlparse plain_lib ''/?a=1&b=2&a=3''))
     = [(''a'', ''1''), (''b'', ''2''), (''a'', ''3'')]
   \<and> parse_request_params plain_lib ''/?a=1&b=2&a=3'' ''a'' = Some (Single ''3'')
   \<and> parse_request_params plain_lib ''/?a=1&b=2&a=3'' ''a'' \<noteq> Some (Multi [''1'', ''3''])
   \<and> map_option (\<lambda>ps. ps ''a'')
         (params (snd (snd (on_request plain_lib sample_adapter (sample_mock [0])
            (sample_request ''GET'' ''http://x/?a=1&b=2&a=3'' ''/?a=1&b=2&a=3'')))))
       = Some (Some (Single ''3''))"
  by code_simp

text \<open>
  When no key comes back after another key in the query (the groups of
  \<^verbatim>\<open>groupby\<close> have distinct keys), the mapping is the one that the claim describes: a
  key is mapped to its single value, or to the list of all its values in their order.
\<close>

lemma groupby_concat: "concat (map snd (groupby f xs)) = xs"
proof (induction f xs rule: groupby.induct)
  case (1 key)
  then show ?case by simp
next
  case (2 key x xs)
  then show ?case by simp
qed

lemma groupby_group:
  "(k, g) \<in> set (groupby f xs) \<Longrightarrow> g \<noteq> [] \<and> (\<forall>x\<in>set g. f x = k)"
proof (induction f xs arbitrary: k g rule: groupby.induct)
  case (1 key)
  then show ?case by simp
next
  case (2 key x xs)
  from "2.prems" have "(k, g) = (key x, x # takeWhile (\<lambda>y. key y = key x) xs)
      \<or> (k, g) \<in> set (groupby key (dropWhile (\<lambda>y. key y = key x) xs))"
    by simp
  then show ?case
  proof
    assume "(k, g) = (key x, x # takeWhile (\<lambda>y. key y = key x) xs)"
    then show ?thesis by (auto dest: set_takeWhileD)
  next
    assume "(k, g) \<in> set (groupby key (dropWhile (\<lambda>y. key y = key x) xs))"
    then show ?thesis using "2.IH" by blast
  qed
qed

lemma filter_groups:
  assumes "distinct (map fst gs)" and "\<forall>(k, g)\<in>set gs. \<forall>x\<in>set g. f x = k"
    and "(k, g) \<in> set gs"
  shows "filter (\<lambda>x. f x = k) (concat (map snd gs)) = g"
  using assms
proof (induction gs)
  case Nil
  then show ?case by simp
next
  case (Cons a gs)
  obtain k' g' where a: "a = (k', g')" by (cases a) auto
  show ?case
  proof (cases "(k, g) = a")
    case True
    then have k: "k' = k" "g' = g" using a by auto
    have "\<forall>(k'', g'')\<in>set gs. k'' \<noteq> k"
      using Cons.prems(1) a k by (auto simp: image_iff) 
    then have "filter (\<lambda>x. f x = k) (concat (map snd gs)) = []"
      using Cons.prems(2) by (fastforce simp: filter_empty_conv)
    moreover have "filter (\<lambda>x. f x = k) g = g"
      using Cons.prems(2) a k by auto
    ultimately show ?thesis using a k by simp
  next
    case False
    then have in_gs: "(k, g) \<in> set gs" using Cons.prems(3) by auto
    then have "k' \<noteq> k" using Cons.prems(1) a by (auto simp: image_iff)
    then have "filter (\<lambda>x. f x = k) g' = []"
      using Cons.prems(2) a by (auto simp: filter_empty_conv)
    moreover have "filter (\<lambda>x. f x = k) (concat (map snd gs)) = g"
      using Cons.IH Cons.prems in_gs by auto
    ultimately show ?thesis using a by simp
  qed
qed

lemma foldl_params:
  "distinct (map fst gs) \<Longrightarrow>
     foldl (\<lambda>ps (key, val). ps(key \<mapsto> h val)) m gs k
       = (case map_of gs k of Some g \<Rightarrow> Some (h g) | None \<Rightarrow> m k)"
proof (induction gs arbitrary: m)
  case Nil
  then show ?case by simp
next
  case (Cons a gs)
  obtain k' g' where a: "a = (k', g')" by (cases a) auto
  have nk: "map_of gs k' = None"
    using Cons.prems a by (simp add: map_of_eq_None_iff)
  show ?case
    using Cons.IH [of "m(k' \<mapsto> h g')"] Cons.prems a nk
    by (auto split: option.splits)
qed

lemma request_params_when_keys_adjacent:
  assumes "distinct (map fst (groupby fst (parse_qsl L (query (urlparse L u)))))"
  shows "parse_request_params L u k =
     (let vs = map snd (filter (\<lambda>kv. fst kv = k) (parse_qsl L (query (urlparse L u))))
      in if vs = [] then None else Some (collapse vs))"
proof -
  let ?kvs = "parse_qsl L (query (urlparse L u))"
  let ?gs = "groupby fst ?kvs"
  have grp: "\<forall>(k, g)\<in>set ?gs. \<forall>x\<in>set g. fst x = k"
    using groupby_group [of _ _ fst ?kvs] by auto
  have pr: "parse_request_params L u k
        = (case map_of ?gs k of Some g \<Rightarrow> Some (collapse (map snd g)) | None \<Rightarrow> None)"
    using foldl_params [OF assms, of "\<lambda>val. collapse (map snd val)" Map.empty k]
    by (simp add: parse_request_params_def collapse_def Let_def)
  show ?thesis
  proof (cases "map_of ?gs k")
    case None
    then have "k \<notin> fst ` set ?gs" by (simp add: map_of_eq_None_iff)
    then have "\<forall>(k', g)\<in>set ?gs. \<forall>x\<in>set g. fst x \<noteq> k"
      using grp by force
    then have "filter (\<lambda>kv. fst kv = k) (concat (map snd ?gs)) = []"
      by (fastforce simp: filter_empty_conv)
    then show ?thesis using None pr by (simp add: groupby_concat)
  next
    case (Some g)
    then have mem: "(k, g) \<in> set ?gs" by (rule map_of_SomeD)
    have "filter (\<lambda>kv. fst kv = k) (concat (map snd ?gs)) = g"
      using filter_groups [OF assms grp mem] .
    moreover have "g \<noteq> []" using groupby_group [OF mem] by simp
    ultimately show ?thesis using Some pr by (simp add: groupby_concat)
  qed
qed

section \<open>Leaving the scope\<close>

text \<open>
  What \<^verbatim>\<open>__exit__\<close> does on a mock that was started, in full: when
  \<^verbatim>\<open>assert_all_requests_are_fired\<close> is set, the body ended normally and some registered
  response was never called, it raises the \<^verbatim>\<open>AssertionError\<close> of \<^verbatim>\<open>stop\<close> and
  \<^verbatim>\<open>reset\<close> is not reached; in every other case it returns whether the body ended
  normally, with \<^verbatim>\<open>_matches\<close> and \<^verbatim>\<open>_calls\<close> reset.
\<close>

lemma exit_result:
  "patcher self \<noteq> None \<Longrightarrow>
   exit L self exc =
     (if assert_all_requests_are_fired self \<and> exc = None
         \<and> (\<exists>m\<in>set (mock_matches self). call_count (heap self m) = 0)
      then (Inl (AssertionError
                   (''Not all requests have been executed ''
                      @ repr_pairs L
                          (map (\<lambda>m. (http_method (heap self m), url (heap self m)))
                             (filter (\<lambda>m. call_count (heap self m) = 0) (mock_matches self))))),
            self \<lparr> patcher := Some False \<rparr>)
      else (Inr (exc = None), reset (self \<lparr> patcher := Some False \<rparr>)))"
  by (auto simp: exit_def stop_def Let_def filter_empty_conv)

lemma exit_after_exception:
  "patcher self \<noteq> None \<Longrightarrow>
   fst (exit L self (Some e)) = Inr False
   \<and> mock_matches (snd (exit L self (Some e))) = []
   \<and> mock_calls (snd (exit L self (Some e))) = []"
  by (simp add: exit_result reset_def calls_reset_def)

text \<open>
  C3 (leaving the scope), where the code departs from it. The claim has \<^verbatim>\<open>__exit__\<close>
  always clear the registry and the call log. On a normal end of the body with
  \<^verbatim>\<open>assert_all_requests_are_fired\<close> set and a response that was never called,
  \<^verbatim>\<open>stop\<close> raises and \<^verbatim>\<open>self.reset()\<close> is skipped: the response stays in
  \<^verbatim>\<open>_matches\<close> and the record stays in \<^verbatim>\<open>_calls\<close>.
\<close>

theorem exit_skips_reset_when_assertion_fires:
  "assert_all_requests_are_fired unfired_mock
   \<and> call_count (heap unfired_mock 0) = 0
   \<and> fst (exit plain_lib unfired_mock None)
       = Inl (AssertionError ''Not all requests have been executed GET http://x/;'')
   \<and> mock_matches (snd (exit plain_lib unfired_mock None)) = [0]
   \<and> length (mock_calls (snd (exit plain_lib unfired_mock None))) = 1"
proof -
  have a: "assert_all_requests_are_fired unfired_mock" by code_simp
  have c: "call_count (heap unfired_mock 0) = 0" by code_simp
  have m: "mock_matches unfired_mock = [0]" by code_simp
  have l: "length (mock_calls unfired_mock) = 1" by code_simp
  have r: "repr_pairs plain_lib
             (map (\<lambda>m. (http_method (heap unfired_mock m), url (heap unfired_mock m)))
                (filter (\<lambda>m. call_count (heap unfired_mock m) = 0) (mock_matches unfired_mock)))
           = ''GET http://x/;''"
    by code_simp
  have p: "patcher unfired_mock \<noteq> None" by code_simp
  have e: "exit plain_lib unfired_mock None
      = (Inl (AssertionError ''Not all requests have been executed GET http://x/;''),
         unfired_mock \<lparr> patcher := Some False \<rparr>)"
    unfolding exit_result [OF p] r using a c m by simp
  show ?thesis
    unfolding e using a c m l by simp
qed

section \<open>The store\<close>

text \<open>
  The hypothesis \<open>allocated\<close> of the statement on \<^verbatim>\<open>replace\<close> holds for a new mock and
  is kept by every operation, provided that an object handed to \<^verbatim>\<open>add\<close>, \<^verbatim>\<open>replace\<close> or
  \<^verbatim>\<open>upsert\<close> exists in the store.
\<close>

lemma allocated_RequestsMock: "allocated (RequestsMock h n a cb p)"
  by (simp add: allocated_def RequestsMock_def reset_def calls_reset_def)

lemma allocated_reset: "allocated (reset self)"
  by (simp add: allocated_def reset_def calls_reset_def)

lemma allocated_alloc:
  "allocated self \<Longrightarrow> alloc self obj = (r, self1) \<Longrightarrow>
     allocated (self1 \<lparr> mock_matches := mock_matches self1 @ [r] \<rparr>) \<and> allocated self1"
  by (fastforce simp: allocated_def alloc_def list_all_iff less_Suc_eq)

lemma allocated_add:
  assumes "allocated self" and "case t of Obj r \<Rightarrow> r < next_ref self | New m u b kw \<Rightarrow> True"
  shows "allocated (snd (add L dumps self t adding_headers))"
  using assms
  by (fastforce simp: add_def allocated_def alloc_def list_all_iff Let_def less_Suc_eq
           split: target.splits sum.splits)

lemma allocated_remove:
  "allocated self \<Longrightarrow> allocated (snd (remove L self method_or_response u))"
  by (simp add: remove_def remove_loop_filter Let_def allocated_def list_all_iff)

lemma allocated_replace:
  assumes "allocated self" and "case t of Obj r \<Rightarrow> r < next_ref self | New m u b kw \<Rightarrow> True"
  shows "allocated (snd (replace L dumps self t))"
proof (cases "new_response L dumps self t")
  case (Inl e)
  then show ?thesis using assms(1) by (simp add: replace_def)
next
  case (Inr x)
  obtain u r self1 where x: "x = (u, r, self1)" by (cases x) auto
  have a1: "allocated self1" and r: "r < next_ref self1"
    using Inr x assms
    by (fastforce simp: new_response_def alloc_def allocated_def list_all_iff less_Suc_eq
             split: target.splits sum.splits)+
  have "\<And>i. allocated (self1 \<lparr> mock_matches := (mock_matches self1)[i := r] \<rparr>)"
    using a1 r by (auto simp: allocated_def list_all_iff dest: set_update_subset_insert [THEN subsetD])
  then show ?thesis
    using Inr x a1 by (simp add: replace_def split: sum.splits)
qed

lemma find_match_registry:
  "\<exists>res ms. find_match L self request = (res, self \<lparr> mock_matches := ms \<rparr>)
     \<and> set ms \<subseteq> set (mock_matches self)"
proof (cases "\<forall>m\<in>set (mock_matches self). \<not> ok L (heap self) request m")
  case True
  have "self = self \<lparr> mock_matches := mock_matches self \<rparr>" by simp
  then show ?thesis using find_match_none [OF True] by (metis subset_refl)
next
  case False
  then have "\<exists>m\<in>set (mock_matches self). ok L (heap self) request m" by blast
  then obtain pre m1 rest where sp: "mock_matches self = pre @ m1 # rest"
    and ok1: "ok L (heap self) request m1"
    and pre_no: "\<forall>m\<in>set pre. \<not> ok L (heap self) request m"
    using split_list_first_prop [of "mock_matches self" "ok L (heap self) request"] by blast
  show ?thesis
  proof (cases "\<forall>m\<in>set rest. \<not> ok L (heap self) request m")
    case True
    have "self = self \<lparr> mock_matches := mock_matches self \<rparr>" by simp
    then show ?thesis using find_match_one [OF sp pre_no ok1 True] by (metis subset_refl)
  next
    case False
    have "set (pre @ rest) \<subseteq> set (mock_matches self)" using sp by auto
    then show ?thesis using find_match_many [OF sp pre_no ok1 False] by blast
  qed
qed

lemma allocated_on_request:
  assumes "allocated self"
  shows "allocated (fst (snd (on_request L adapter self request)))"
proof -
  obtain res ms where f: "find_match L self request = (res, self \<lparr> mock_matches := ms \<rparr>)"
    and sub: "set ms \<subseteq> set (mock_matches self)"
    using find_match_registry by blast
  have a: "allocated (self \<lparr> mock_matches := ms \<rparr>)"
    using assms sub by (auto simp: allocated_def list_all_iff)
  have r: "\<And>s m rq. allocated s \<Longrightarrow> allocated (fst (snd (respond L adapter s m rq)))"
    by (simp add: allocated_def respond_def incr_call_count_def calls_add_def Let_def
             split: sum.splits)
  show ?thesis
    using a r [OF a]
    by (auto simp: on_request_def f Let_def calls_add_def allocated_def
             split: sum.splits option.splits prod.splits)
qed


lemma replace_next_ref: "next_ref self \<le> next_ref (snd (replace L dumps self t))"
  by (auto simp: replace_def new_response_def alloc_def split: target.splits sum.splits)

lemma allocated_upsert:
  assumes "allocated self" and "case t of Obj r \<Rightarrow> r < next_ref self | New m u b kw \<Rightarrow> True"
  shows "allocated (snd (upsert L dumps self t adding_headers))"
proof -
  obtain res self1 where r: "replace L dumps self t = (res, self1)"
    by (cases "replace L dumps self t") auto
  have a1: "allocated self1"
    using allocated_replace [OF assms, of L dumps] r by simp
  have "next_ref self \<le> next_ref self1"
    using replace_next_ref [of self L dumps t] r by simp
  then have t1: "case t of Obj r \<Rightarrow> r < next_ref self1 | New m u b kw \<Rightarrow> True"
    using assms(2) by (auto split: target.splits)
  show ?thesis
    using a1 allocated_add [OF a1 t1, of L dumps adding_headers]
    by (auto simp: upsert_def r split: sum.splits exn.splits)
qed

section \<open>A response with a \<^verbatim>\<open>json\<close> argument\<close>

subsection \<open>Reading back what \<^verbatim>\<open>json.dumps\<close> writes\<close>


























lemma join_cons: "join sep (p # q # ps) = p @ sep @ join sep (q # ps)"
  by simp












subsection \<open>The dispatch of a response created with \<^verbatim>\<open>json\<close>\<close>









lemma setdefault_headers_fields [simp]:
  "kw_json (setdefault_headers kw a) = kw_json kw"
  "kw_content_type (setdefault_headers kw a) = kw_content_type kw"
  "kw_status (setdefault_headers kw a) = kw_status kw"
  by (simp_all add: setdefault_headers_def split: option.splits)




end
